theory Spec2Isabelle
  imports Main
begin

section \<open>Operator execution framework of the columnar plugin (expr_visitor_impl.h)\<close>

text \<open>
  A shallow embedding of \<^verbatim>\<open>codegen/arrow_compute/expr_visitor_impl.h\<close> and of
  \<^verbatim>\<open>codegen/code_generator_factory.h\<close>. Every method of an operator class is a
  function from the operator (with the \<^verbatim>\<open>ExprVisitor\<close> it points to) to an optional
  pair of the returned \<^verbatim>\<open>arrow::Status\<close> and the updated operator. The value
  \<open>None\<close> stands for undefined behaviour of the C++ (a null pointer dereferenced, a vector
  or a record batch read out of range). A method that returns an error still returns the
  operator, with the writes it made before the error.

  The wall-clock counters (\<^verbatim>\<open>elapse_time_\<close>, \<^verbatim>\<open>concat_elapse_time\<close>) and the lines
  printed to the standard output are not part of the model.
\<close>

subsection \<open>Arrow values\<close>

datatype StatusCode =
  OK | OutOfMemory | KeyError | TypeError | Invalid | IOError | CapacityError
  | IndexError | UnknownError | NotImplemented

datatype Status = Status (code: StatusCode) (message: string)

definition ok :: "Status \<Rightarrow> bool" where
  "ok st = (code st = OK)"

definition Status_OK :: Status where
  "Status_OK = Status OK []"

datatype DataType = int64 | uint32 | FixedSizeBinaryType nat | OtherType string

record Field =
  name :: string
  type :: DataType

type_synonym Schema = "Field list"

type_synonym Array = "int option list"

type_synonym RecordBatch = "Array list"

datatype ResultIterator = ResultIterator "RecordBatch list"

text \<open>
  Modelled from the spec: the enumeration \<^verbatim>\<open>ArrowComputeResultType\<close> is declared in
  \<^verbatim>\<open>expr_visitor.h\<close>, which is not among the sources; the spec gives it as the closed
  tag \<open>None\<close>, \<open>Array\<close>, \<open>Batch\<close>, \<open>BatchIterator\<close>.
\<close>

datatype ArrowComputeResultType = None_kind | Array_kind | Batch_kind | BatchIterator_kind

text \<open>
  \<^verbatim>\<open>Schema::GetFieldIndex\<close> and \<^verbatim>\<open>Schema::GetFieldByName\<close> of Arrow: the position
  and the field of the (first) field of that name, \<open>-1\<close> and a null pointer when there is
  none.
\<close>

fun GetFieldIndex :: "Schema \<Rightarrow> string \<Rightarrow> int" where
  "GetFieldIndex [] n = -1"
| "GetFieldIndex (f # fs) n =
     (if name f = n then 0
      else (let i = GetFieldIndex fs n in if i < 0 then -1 else i + 1))"

fun GetFieldByName :: "Schema \<Rightarrow> string \<Rightarrow> Field option" where
  "GetFieldByName [] n = None"
| "GetFieldByName (f # fs) n = (if name f = n then Some f else GetFieldByName fs n)"

text \<open>
  \<^verbatim>\<open>RecordBatch::num_columns\<close> and \<^verbatim>\<open>RecordBatch::column\<close> through the pointer
  \<^verbatim>\<open>in_record_batch_\<close>: undefined on a null pointer, and \<^verbatim>\<open>column\<close> also on an
  index outside the batch.
\<close>

definition num_columns :: "RecordBatch option \<Rightarrow> int option" where
  "num_columns b = (case b of None \<Rightarrow> None | Some cols \<Rightarrow> Some (int (length cols)))"

definition column :: "RecordBatch option \<Rightarrow> int \<Rightarrow> Array option" where
  "column b i =
     (case b of
        None \<Rightarrow> None
      | Some cols \<Rightarrow>
          if 0 \<le> i \<and> i < int (length cols) then Some (cols ! nat i) else None)"

subsection \<open>Kernels\<close>

text \<open>
  The kernels of \<^verbatim>\<open>ext/kernels_ext.h\<close> are not among the sources, and the operators
  never look inside one. A kernel is therefore the class and the arguments it was made
  with (the \<^verbatim>\<open>Make\<close> calls of the \<^verbatim>\<open>Init\<close> methods) and the calls it has received
  since (the calls on \<^verbatim>\<open>kernel_\<close> and \<^verbatim>\<open>concat_kernel_\<close> in the source, one
  constructor for each overload used). What a call returns and what it writes through
  its output pointer is a parameter (\<open>Kernels\<close>) of every operator method.
\<close>

datatype KernelClass =
  SplitArrayListWithActionKernel "string list" "DataType list"
  | SumArrayKernel DataType
  | AppendArrayKernel
  | CountArrayKernel DataType
  | UniqueArrayKernel
  | SumCountArrayKernel DataType
  | AvgByCountArrayKernel DataType
  | MinArrayKernel DataType
  | MaxArrayKernel DataType
  | EncodeArrayKernel
  | HashAggrArrayKernel "DataType list"
  | ProbeArrayKernel
  | TakeArrayKernel
  | NTakeArrayKernel
  | SortArraysToIndicesKernel bool bool
  | ShuffleArrayListKernel "DataType list"
  | ProbeArraysKernel DataType int

datatype KernelCall =
  Evaluate_ArrayList "Array list"
  | Evaluate_ArrayList_Array "Array list" "Array option"
  | Evaluate_ArrayList_out_Array "Array list"
  | Evaluate_ArrayList_out_Batch "Array list"
  | Evaluate_Array "Array option"
  | Evaluate_Array_out_Array "Array option"
  | Finish_out_Array
  | Finish_out_Batch
  | MakeResultIterator_call Schema
  | SetMember_call "RecordBatch option"
  | SetDependencyInput_call "Array option"
  | SetDependencyIter_call "ResultIterator option" int

record KernalBase =
  kernel_class :: KernelClass
  calls :: "KernelCall list"

record Kernels =
  Make_status :: "KernelClass \<Rightarrow> Status"
  call_status :: "KernalBase \<Rightarrow> KernelCall \<Rightarrow> Status"
  out_array :: "KernalBase \<Rightarrow> KernelCall \<Rightarrow> Array option \<Rightarrow> Array option"
  out_batch :: "KernalBase \<Rightarrow> KernelCall \<Rightarrow> RecordBatch \<Rightarrow> RecordBatch"
  out_iterator ::
    "KernalBase \<Rightarrow> KernelCall \<Rightarrow> ResultIterator option \<Rightarrow> ResultIterator option"

definition new_kernel :: "KernelClass \<Rightarrow> KernalBase" where
  "new_kernel c = \<lparr>kernel_class = c, calls = []\<rparr>"

definition called :: "KernalBase \<Rightarrow> KernelCall \<Rightarrow> KernalBase" where
  "called k c = k\<lparr>calls := calls k @ [c]\<rparr>"

subsection \<open>The context and the operators\<close>

text \<open>
  The fields of \<^verbatim>\<open>ExprVisitor\<close> (declared in \<^verbatim>\<open>expr_visitor.h\<close>) that the operators
  read and write.
\<close>

record ExprVisitor =
  func_name :: string
  schema :: Schema
  param_field_names :: "string list"
  action_name_list :: "string list"
  action_param_list :: "string list"
  result_fields :: "Field list"
  dependency_result_type :: ArrowComputeResultType
  in_record_batch :: "RecordBatch option"
  in_array :: "Array option"
  member_record_batch :: "RecordBatch option"
  result_array :: "Array option"
  result_batch :: RecordBatch
  return_type :: ArrowComputeResultType

text \<open>
  The nine classes derived from \<^verbatim>\<open>ExprVisitorImpl\<close>, with the constructor arguments
  they keep (\<^verbatim>\<open>func_name_\<close>; \<^verbatim>\<open>nulls_first_\<close> and \<^verbatim>\<open>asc_\<close>; \<^verbatim>\<open>join_type_\<close>).
\<close>

datatype VisitorClass =
  SplitArrayListWithActionVisitorImpl
  | AggregateVisitorImpl string
  | EncodeVisitorImpl
  | ProbeVisitorImpl
  | TakeVisitorImpl
  | NTakeVisitorImpl
  | SortArraysToIndicesVisitorImpl bool bool
  | ShuffleArrayListVisitorImpl
  | ProbeArraysVisitorImpl int

text \<open>
  An operator object: the fields of the base class, the context \<^verbatim>\<open>p_\<close> points to, and
  the private fields of the derived classes (\<^verbatim>\<open>col_id_list_\<close>, \<^verbatim>\<open>col_id_\<close>,
  \<^verbatim>\<open>concat_kernel_\<close>).
\<close>

record ExprVisitorImpl =
  visitor_class :: VisitorClass
  p_visitor :: ExprVisitor
  initialized :: bool
  finish_return_type :: ArrowComputeResultType
  kernel :: "KernalBase option"
  col_id_list :: "int list"
  col_id :: int
  concat_kernel :: "KernalBase option"

text \<open>
  The constructors (\<^verbatim>\<open>Make\<close>). \<^verbatim>\<open>finish_return_type_\<close> and \<^verbatim>\<open>col_id_\<close> have no
  initializer in the source: their first values are arguments here.
\<close>

definition Make :: "VisitorClass \<Rightarrow> ExprVisitor \<Rightarrow> ArrowComputeResultType \<Rightarrow> int \<Rightarrow> ExprVisitorImpl" where
  "Make c ctx frt cid =
     \<lparr>visitor_class = c, p_visitor = ctx, initialized = False, finish_return_type = frt,
      kernel = None, col_id_list = [], col_id = cid, concat_kernel = None\<rparr>"

type_synonym Result = "(Status \<times> ExprVisitorImpl) option"

definition GetColumnIdAndFieldByName :: "Schema \<Rightarrow> string \<Rightarrow> Status \<times> int \<times> Field option" where
  "GetColumnIdAndFieldByName sch col_name =
     (let idx = GetFieldIndex sch col_name; out_field = GetFieldByName sch col_name
      in if idx < 0
         then (Status Invalid (''GetColumnIdAndFieldByName doesn't found col_name '' @ col_name),
               idx, out_field)
         else (Status_OK, idx, out_field))"

text \<open>
  The loop of the \<^verbatim>\<open>Init\<close> methods over a list of column names: the columns resolved
  before the first name that is not in the schema, with the status of that lookup. Every
  \<^verbatim>\<open>Init\<close> appends them, in this order, to its lists. A null field with a non-negative
  index would be dereferenced by \<^verbatim>\<open>field->type()\<close>; the schema never gives one.
\<close>

fun resolve_columns :: "Schema \<Rightarrow> string list \<Rightarrow> (Status \<times> (int \<times> Field) list) option" where
  "resolve_columns sch [] = Some (Status_OK, [])"
| "resolve_columns sch (col_name # rest) =
     (case GetColumnIdAndFieldByName sch col_name of
        (st, idx, field) \<Rightarrow>
          if \<not> ok st then Some (st, [])
          else (case field of
                  None \<Rightarrow> None
                | Some f \<Rightarrow>
                    (case resolve_columns sch rest of
                       None \<Rightarrow> None
                     | Some (st', r) \<Rightarrow> Some (st', (idx, f) # r))))"

text \<open>
  The loops of the \<^verbatim>\<open>Eval\<close> methods over \<^verbatim>\<open>col_id_list_\<close>: with the bound check
  (and the message of its \<^verbatim>\<open>Status::Invalid\<close>), and without.
\<close>

fun checked_columns :: "string \<Rightarrow> RecordBatch option \<Rightarrow> int list \<Rightarrow> (Status + Array list) option" where
  "checked_columns msg b [] = Some (Inr [])"
| "checked_columns msg b (i # rest) =
     (case num_columns b of
        None \<Rightarrow> None
      | Some n \<Rightarrow>
          if i \<ge> n then Some (Inl (Status Invalid msg))
          else (case column b i of
                  None \<Rightarrow> None
                | Some col \<Rightarrow>
                    (case checked_columns msg b rest of
                       None \<Rightarrow> None
                     | Some (Inl e) \<Rightarrow> Some (Inl e)
                     | Some (Inr cols) \<Rightarrow> Some (Inr (col # cols)))))"

fun unchecked_columns :: "RecordBatch option \<Rightarrow> int list \<Rightarrow> Array list option" where
  "unchecked_columns b [] = Some []"
| "unchecked_columns b (i # rest) =
     (case column b i of
        None \<Rightarrow> None
      | Some col \<Rightarrow>
          (case unchecked_columns b rest of
             None \<Rightarrow> None
           | Some cols \<Rightarrow> Some (col # cols)))"

subsection \<open>ExprVisitorImpl (the base class)\<close>

definition Base_Eval :: "ExprVisitorImpl \<Rightarrow> Result" where
  "Base_Eval s = Some (Status NotImplemented ''ExprVisitorImpl Eval is abstract.'', s)"

definition Base_Init :: "ExprVisitorImpl \<Rightarrow> Result" where
  "Base_Init s = Some (Status NotImplemented ''ExprVisitorImpl Init is abstract.'', s)"

definition Base_SetMember :: "ExprVisitorImpl \<Rightarrow> Result" where
  "Base_SetMember s = Some (Status NotImplemented ''ExprVisitorImpl Init is abstract.'', s)"

definition Base_SetDependency :: "ResultIterator option \<Rightarrow> int \<Rightarrow> ExprVisitorImpl \<Rightarrow> Result" where
  "Base_SetDependency dependency_iter index s =
     Some (Status NotImplemented ''ExprVisitorImpl SetDependency is abstract.'', s)"

definition Base_Finish :: "ExprVisitorImpl \<Rightarrow> Result" where
  "Base_Finish s = Some (Status_OK, s)"

definition Base_MakeResultIterator ::
  "Schema \<Rightarrow> ResultIterator option \<Rightarrow> ExprVisitorImpl \<Rightarrow> (Status \<times> ExprVisitorImpl \<times> ResultIterator option) option" where
  "Base_MakeResultIterator sch out s =
     Some (Status NotImplemented
             (''ExprVisitorImpl '' @ func_name (p_visitor s) @ '' MakeResultIterator is abstract.''),
           s, out)"

subsection \<open>Helpers shared by the methods below\<close>

text \<open>
  \<^verbatim>\<open>RETURN_NOT_OK(Kernel::Make(..., &kernel_))\<close> followed by
  \<^verbatim>\<open>initialized_ = true; return arrow::Status::OK();\<close>.
\<close>

definition bind_kernel :: "Kernels \<Rightarrow> KernelClass \<Rightarrow> ExprVisitorImpl \<Rightarrow> Result" where
  "bind_kernel E c s =
     (if \<not> ok (Make_status E c) then Some (Make_status E c, s)
      else Some (Status_OK, s\<lparr>kernel := Some (new_kernel c), initialized := True\<rparr>))"

definition push_result_fields :: "Field list \<Rightarrow> ExprVisitorImpl \<Rightarrow> ExprVisitorImpl" where
  "push_result_fields fs s =
     s\<lparr>p_visitor := (p_visitor s)\<lparr>result_fields := result_fields (p_visitor s) @ fs\<rparr>\<rparr>"

definition push_col_ids :: "int list \<Rightarrow> ExprVisitorImpl \<Rightarrow> ExprVisitorImpl" where
  "push_col_ids ids s = s\<lparr>col_id_list := col_id_list s @ ids\<rparr>"

text \<open>\<^verbatim>\<open>kernel_->Evaluate(in)\<close> on a list of columns or on one column.\<close>

definition kernel_Evaluate :: "Kernels \<Rightarrow> KernelCall \<Rightarrow> ExprVisitorImpl \<Rightarrow> Result" where
  "kernel_Evaluate E c s =
     (case kernel s of
        None \<Rightarrow> None
      | Some k \<Rightarrow> Some (call_status E k c, s\<lparr>kernel := Some (called k c)\<rparr>))"

text \<open>\<^verbatim>\<open>kernel_->Finish(&p_->result_array_)\<close> and \<^verbatim>\<open>kernel_->Finish(&p_->result_batch_)\<close>.\<close>

definition kernel_Finish_Array :: "Kernels \<Rightarrow> ExprVisitorImpl \<Rightarrow> Result" where
  "kernel_Finish_Array E s =
     (case kernel s of
        None \<Rightarrow> None
      | Some k \<Rightarrow>
          Some (call_status E k Finish_out_Array,
                s\<lparr>kernel := Some (called k Finish_out_Array),
                  p_visitor := (p_visitor s)
                    \<lparr>result_array := out_array E k Finish_out_Array (result_array (p_visitor s))\<rparr>\<rparr>))"

definition kernel_Finish_Batch :: "Kernels \<Rightarrow> ExprVisitorImpl \<Rightarrow> Result" where
  "kernel_Finish_Batch E s =
     (case kernel s of
        None \<Rightarrow> None
      | Some k \<Rightarrow>
          Some (call_status E k Finish_out_Batch,
                s\<lparr>kernel := Some (called k Finish_out_Batch),
                  p_visitor := (p_visitor s)
                    \<lparr>result_batch := out_batch E k Finish_out_Batch (result_batch (p_visitor s))\<rparr>\<rparr>))"

text \<open>\<^verbatim>\<open>kernel_->MakeResultIterator(schema, out)\<close>.\<close>

definition kernel_MakeResultIterator ::
  "Kernels \<Rightarrow> Schema \<Rightarrow> ResultIterator option \<Rightarrow> ExprVisitorImpl \<Rightarrow> (Status \<times> ExprVisitorImpl \<times> ResultIterator option) option" where
  "kernel_MakeResultIterator E sch out s =
     (case kernel s of
        None \<Rightarrow> None
      | Some k \<Rightarrow>
          Some (call_status E k (MakeResultIterator_call sch),
                s\<lparr>kernel := Some (called k (MakeResultIterator_call sch))\<rparr>,
                out_iterator E k (MakeResultIterator_call sch) out))"

definition set_return_type :: "ArrowComputeResultType \<Rightarrow> ExprVisitorImpl \<Rightarrow> ExprVisitorImpl" where
  "set_return_type t s = s\<lparr>p_visitor := (p_visitor s)\<lparr>return_type := t\<rparr>\<rparr>"

subsection \<open>SplitArrayListWithActionVisitorImpl\<close>

definition Split_Init :: "Kernels \<Rightarrow> ExprVisitorImpl \<Rightarrow> Result" where
  "Split_Init E s =
     (if initialized s then Some (Status_OK, s)
      else if action_name_list (p_visitor s) = []
      then Some (Status Invalid
                   ''ExprVisitor::SplitArrayListWithAction have empty action_name_list, this is invalid.'',
                 s)
      else (case resolve_columns (schema (p_visitor s)) (action_param_list (p_visitor s)) of
              None \<Rightarrow> None
            | Some (st, r) \<Rightarrow>
                (let s1 = push_col_ids (map fst r) (push_result_fields (map snd r) s)
                 in if \<not> ok st then Some (st, s1)
                    else bind_kernel E
                           (SplitArrayListWithActionKernel (action_name_list (p_visitor s))
                              (map (type \<circ> snd) r))
                           s1)))"

definition Split_Eval :: "Kernels \<Rightarrow> ExprVisitorImpl \<Rightarrow> Result" where
  "Split_Eval E s =
     (case dependency_result_type (p_visitor s) of
        Array_kind \<Rightarrow>
          (case checked_columns
                  ''SplitArrayListWithActionVisitorImpl Eval col_id is bigger than input batch numColumns.''
                  (in_record_batch (p_visitor s)) (col_id_list s) of
             None \<Rightarrow> None
           | Some (Inl e) \<Rightarrow> Some (e, s)
           | Some (Inr col_list) \<Rightarrow>
               (case kernel_Evaluate E
                       (Evaluate_ArrayList_Array col_list (in_array (p_visitor s))) s of
                  None \<Rightarrow> None
                | Some (st, s1) \<Rightarrow>
                    if \<not> ok st then Some (st, s1)
                    else Some (Status_OK,
                               s1\<lparr>finish_return_type := Batch_kind,
                                  p_visitor := (p_visitor s1)\<lparr>dependency_result_type := None_kind\<rparr>\<rparr>)))
      | _ \<Rightarrow>
          Some (Status NotImplemented
                  ''SplitArrayListWithActionVisitorImpl: Does not support this type of input.'',
                s))"

definition Split_Finish :: "Kernels \<Rightarrow> ExprVisitorImpl \<Rightarrow> Result" where
  "Split_Finish E s =
     (case Base_Finish s of
        None \<Rightarrow> None
      | Some (st0, s0) \<Rightarrow>
          if \<not> ok st0 then Some (st0, s0)
          else (case finish_return_type s0 of
                  Batch_kind \<Rightarrow>
                    (case kernel_Finish_Batch E s0 of
                       None \<Rightarrow> None
                     | Some (st, s1) \<Rightarrow>
                         if \<not> ok st then Some (st, s1)
                         else Some (Status_OK, set_return_type Batch_kind s1))
                | _ \<Rightarrow>
                    Some (Status NotImplemented
                            ''SplitArrayListWithActionVisitorImpl only support finish_return_type as Batch.'',
                          s0)))"

definition Split_MakeResultIterator ::
  "Kernels \<Rightarrow> Schema \<Rightarrow> ResultIterator option \<Rightarrow> ExprVisitorImpl \<Rightarrow> (Status \<times> ExprVisitorImpl \<times> ResultIterator option) option" where
  "Split_MakeResultIterator E sch out s =
     (case finish_return_type s of
        Batch_kind \<Rightarrow>
          (case kernel_MakeResultIterator E sch out s of
             None \<Rightarrow> None
           | Some (st, s1, out1) \<Rightarrow>
               if \<not> ok st then Some (st, s1, out1)
               else Some (Status_OK, set_return_type BatchIterator_kind s1, out1))
      | _ \<Rightarrow>
          Some (Status Invalid
                  ''SplitArrayListWithActionVisitorImpl Finish does not support dependency type other than Batch.'',
                s, out))"

subsection \<open>AggregateVisitorImpl\<close>

definition Aggregate_Init :: "Kernels \<Rightarrow> string \<Rightarrow> ExprVisitorImpl \<Rightarrow> Result" where
  "Aggregate_Init E fname s =
     (if initialized s then Some (Status_OK, s)
      else (case resolve_columns (schema (p_visitor s)) (param_field_names (p_visitor s)) of
              None \<Rightarrow> None
            | Some (st, r) \<Rightarrow>
                (let s1 = push_col_ids (map fst r) (push_result_fields (map snd r) s)
                 in if \<not> ok st then Some (st, s1)
                    else (case result_fields (p_visitor s1) of
                            [] \<Rightarrow> None
                          | f0 # _ \<Rightarrow>
                              (let data_type = type f0
                               in if fname = ''sum'' then bind_kernel E (SumArrayKernel data_type) s1
                                  else if fname = ''append'' then bind_kernel E AppendArrayKernel s1
                                  else if fname = ''count''
                                  then bind_kernel E (CountArrayKernel data_type) s1
                                  else if fname = ''unique'' then bind_kernel E UniqueArrayKernel s1
                                  else if fname = ''sum_count''
                                  then bind_kernel E (SumCountArrayKernel data_type)
                                         (push_result_fields [\<lparr>name = ''cnt'', type = int64\<rparr>] s1)
                                  else if fname = ''avgByCount''
                                  then bind_kernel E (AvgByCountArrayKernel data_type)
                                         (s1\<lparr>p_visitor := (p_visitor s1)
                                               \<lparr>result_fields := butlast (result_fields (p_visitor s1))\<rparr>\<rparr>)
                                  else if fname = ''min''
                                  then bind_kernel E (MinArrayKernel data_type) s1
                                  else if fname = ''max''
                                  then bind_kernel E (MaxArrayKernel data_type) s1
                                  else Some (Status_OK, s1\<lparr>initialized := True\<rparr>))))))"

definition Aggregate_Eval :: "Kernels \<Rightarrow> ExprVisitorImpl \<Rightarrow> Result" where
  "Aggregate_Eval E s =
     (case dependency_result_type (p_visitor s) of
        None_kind \<Rightarrow>
          (case checked_columns
                  ''AggregateVisitorImpl Eval col_id is bigger than input batch numColumns.''
                  (in_record_batch (p_visitor s)) (col_id_list s) of
             None \<Rightarrow> None
           | Some (Inl e) \<Rightarrow> Some (e, s)
           | Some (Inr in_list) \<Rightarrow>
               (case kernel_Evaluate E (Evaluate_ArrayList in_list) s of
                  None \<Rightarrow> None
                | Some (st, s1) \<Rightarrow>
                    if \<not> ok st then Some (st, s1)
                    else Some (Status_OK, s1\<lparr>finish_return_type := Batch_kind\<rparr>)))
      | _ \<Rightarrow>
          Some (Status NotImplemented ''AggregateVisitorImpl: Does not support this type of input.'',
                s))"

definition Aggregate_Finish :: "Kernels \<Rightarrow> ExprVisitorImpl \<Rightarrow> Result" where
  "Aggregate_Finish E s =
     (case Base_Finish s of
        None \<Rightarrow> None
      | Some (st0, s0) \<Rightarrow>
          if \<not> ok st0 then Some (st0, s0)
          else (case finish_return_type s0 of
                  Batch_kind \<Rightarrow>
                    (case kernel_Finish_Batch E s0 of
                       None \<Rightarrow> None
                     | Some (st, s1) \<Rightarrow>
                         if \<not> ok st then Some (st, s1)
                         else Some (Status_OK, set_return_type Batch_kind s1))
                | _ \<Rightarrow>
                    Some (Status NotImplemented
                            ''AggregateVisitorImpl only support finish_return_type as Array.'',
                          s0)))"

subsection \<open>EncodeVisitorImpl\<close>

text \<open>
  The input column of \<^verbatim>\<open>EncodeVisitorImpl::Eval\<close> and of
  \<^verbatim>\<open>ProbeArraysVisitorImpl::Eval\<close>: the concatenation of the key columns by
  \<^verbatim>\<open>concat_kernel_\<close> when there is one, \<^verbatim>\<open>column(col_id_list_[0])\<close> otherwise.
  Neither branch compares an index with \<^verbatim>\<open>num_columns()\<close>. The result is the early
  return of a failed concatenation, or the column.
\<close>

definition key_column :: "Kernels \<Rightarrow> ExprVisitorImpl \<Rightarrow> ((Status + Array option) \<times> ExprVisitorImpl) option" where
  "key_column E s =
     (case concat_kernel s of
        Some ck \<Rightarrow>
          (case unchecked_columns (in_record_batch (p_visitor s)) (col_id_list s) of
             None \<Rightarrow> None
           | Some array_list \<Rightarrow>
               (let c = Evaluate_ArrayList_out_Array array_list;
                    s1 = s\<lparr>concat_kernel := Some (called ck c)\<rparr>
                in if \<not> ok (call_status E ck c) then Some (Inl (call_status E ck c), s1)
                   else Some (Inr (out_array E ck c None), s1)))
      | None \<Rightarrow>
          (case col_id_list s of
             [] \<Rightarrow> None
           | i # _ \<Rightarrow>
               (case column (in_record_batch (p_visitor s)) i of
                  None \<Rightarrow> None
                | Some col \<Rightarrow> Some (Inr (Some col), s))))"

definition Encode_Init :: "Kernels \<Rightarrow> ExprVisitorImpl \<Rightarrow> Result" where
  "Encode_Init E s =
     (if initialized s then Some (Status_OK, s)
      else if \<not> ok (Make_status E EncodeArrayKernel) then Some (Make_status E EncodeArrayKernel, s)
      else (let s0 = s\<lparr>kernel := Some (new_kernel EncodeArrayKernel)\<rparr>
            in case resolve_columns (schema (p_visitor s0)) (param_field_names (p_visitor s0)) of
                 None \<Rightarrow> None
               | Some (st, r) \<Rightarrow>
                   (let s1 = push_col_ids (map fst r) s0;
                        type_list = map (type \<circ> snd) r;
                        c = HashAggrArrayKernel type_list
                    in if \<not> ok st then Some (st, s1)
                       else if length type_list > 1 \<and> \<not> ok (Make_status E c)
                       then Some (Make_status E c, s1)
                       else (let s2 = (if length type_list > 1
                                       then s1\<lparr>concat_kernel := Some (new_kernel c)\<rparr> else s1)
                             in Some (Status_OK,
                                      (push_result_fields [\<lparr>name = ''res'', type = uint32\<rparr>] s2)
                                        \<lparr>initialized := True\<rparr>)))))"

definition Encode_Eval :: "Kernels \<Rightarrow> ExprVisitorImpl \<Rightarrow> Result" where
  "Encode_Eval E s =
     (case dependency_result_type (p_visitor s) of
        None_kind \<Rightarrow>
          (case key_column E s of
             None \<Rightarrow> None
           | Some (Inl e, s1) \<Rightarrow> Some (e, s1)
           | Some (Inr col, s1) \<Rightarrow>
               (case kernel s1 of
                  None \<Rightarrow> None
                | Some k \<Rightarrow>
                    (let c = Evaluate_Array_out_Array col;
                         s2 = s1\<lparr>kernel := Some (called k c),
                                 p_visitor := (p_visitor s1)
                                   \<lparr>result_array := out_array E k c (result_array (p_visitor s1))\<rparr>\<rparr>
                     in if \<not> ok (call_status E k c) then Some (call_status E k c, s2)
                        else Some (Status_OK, set_return_type Array_kind s2))))
      | _ \<Rightarrow>
          Some (Status NotImplemented ''EncodeVisitorImpl: Does not support this type of input.'', s))"

definition Encode_Finish :: "ExprVisitorImpl \<Rightarrow> Result" where
  "Encode_Finish s = Some (Status_OK, s)"

subsection \<open>ProbeVisitorImpl, TakeVisitorImpl, NTakeVisitorImpl, SortArraysToIndicesVisitorImpl\<close>

text \<open>
  The four \<^verbatim>\<open>Init\<close> methods are the same text but for the kernel they make and, in
  the last class, the message: one function, with both as arguments.
  \<^verbatim>\<open>GetColumnIdAndFieldByName\<close> writes \<^verbatim>\<open>col_id_\<close> through the pointer also when
  it fails.
\<close>

definition single_column_Init :: "Kernels \<Rightarrow> KernelClass \<Rightarrow> string \<Rightarrow> ExprVisitorImpl \<Rightarrow> Result" where
  "single_column_Init E c msg s =
     (if initialized s then Some (Status_OK, s)
      else if \<not> ok (Make_status E c) then Some (Make_status E c, s)
      else (let s0 = s\<lparr>kernel := Some (new_kernel c)\<rparr>
            in case param_field_names (p_visitor s0) of
                 [col_name] \<Rightarrow>
                   (case GetColumnIdAndFieldByName (schema (p_visitor s0)) col_name of
                      (st, idx, field) \<Rightarrow>
                        (let s1 = s0\<lparr>col_id := idx\<rparr>
                         in if \<not> ok st then Some (st, s1)
                            else (case field of
                                    None \<Rightarrow> None
                                  | Some f \<Rightarrow>
                                      Some (Status_OK,
                                            (push_result_fields [f] s1)\<lparr>initialized := True\<rparr>))))
               | _ \<Rightarrow> Some (Status Invalid msg, s0)))"

definition Probe_Init :: "Kernels \<Rightarrow> ExprVisitorImpl \<Rightarrow> Result" where
  "Probe_Init E s =
     single_column_Init E ProbeArrayKernel
       ''EncodeVisitorImpl expects param_field_name_list only contains one element.'' s"

definition Take_Init :: "Kernels \<Rightarrow> ExprVisitorImpl \<Rightarrow> Result" where
  "Take_Init E s =
     single_column_Init E TakeArrayKernel
       ''EncodeVisitorImpl expects param_field_name_list only contains one element.'' s"

definition NTake_Init :: "Kernels \<Rightarrow> ExprVisitorImpl \<Rightarrow> Result" where
  "NTake_Init E s =
     single_column_Init E NTakeArrayKernel
       ''EncodeVisitorImpl expects param_field_name_list only contains one element.'' s"

definition Sort_Init :: "Kernels \<Rightarrow> bool \<Rightarrow> bool \<Rightarrow> ExprVisitorImpl \<Rightarrow> Result" where
  "Sort_Init E nulls_first asc s =
     single_column_Init E (SortArraysToIndicesKernel nulls_first asc)
       ''SortArraysToIndicesVisitorImpl expects param_field_name_list only contains one element.'' s"

text \<open>
  \<^verbatim>\<open>Eval\<close> of \<^verbatim>\<open>ProbeVisitorImpl\<close>, \<^verbatim>\<open>TakeVisitorImpl\<close> and \<^verbatim>\<open>NTakeVisitorImpl\<close>
  (the same text in the three classes, the message included): the column is read with no
  comparison of \<^verbatim>\<open>col_id_\<close> with \<^verbatim>\<open>num_columns()\<close>.
\<close>

definition Probe_Eval :: "Kernels \<Rightarrow> ExprVisitorImpl \<Rightarrow> Result" where
  "Probe_Eval E s =
     (case dependency_result_type (p_visitor s) of
        None_kind \<Rightarrow>
          (case column (in_record_batch (p_visitor s)) (col_id s) of
             None \<Rightarrow> None
           | Some col \<Rightarrow>
               (case kernel_Evaluate E (Evaluate_Array (Some col)) s of
                  None \<Rightarrow> None
                | Some (st, s1) \<Rightarrow>
                    if \<not> ok st then Some (st, s1)
                    else Some (Status_OK, s1\<lparr>finish_return_type := Array_kind\<rparr>)))
      | _ \<Rightarrow>
          Some (Status NotImplemented ''EncodeVisitorImpl: Does not support this type of input.'', s))"

definition Take_Eval :: "Kernels \<Rightarrow> ExprVisitorImpl \<Rightarrow> Result" where
  "Take_Eval E s = Probe_Eval E s"

definition NTake_Eval :: "Kernels \<Rightarrow> ExprVisitorImpl \<Rightarrow> Result" where
  "NTake_Eval E s = Probe_Eval E s"

definition Sort_Eval :: "Kernels \<Rightarrow> ExprVisitorImpl \<Rightarrow> Result" where
  "Sort_Eval E s =
     (case dependency_result_type (p_visitor s) of
        None_kind \<Rightarrow>
          (case num_columns (in_record_batch (p_visitor s)) of
             None \<Rightarrow> None
           | Some n \<Rightarrow>
               if col_id s \<ge> n
               then Some (Status Invalid
                            ''SortArraysToIndicesVisitorImpl Eval col_id is bigger than input batch numColumns.'',
                          s)
               else (case column (in_record_batch (p_visitor s)) (col_id s) of
                       None \<Rightarrow> None
                     | Some col \<Rightarrow>
                         (case kernel_Evaluate E (Evaluate_Array (Some col)) s of
                            None \<Rightarrow> None
                          | Some (st, s1) \<Rightarrow>
                              if \<not> ok st then Some (st, s1)
                              else Some (Status_OK, s1\<lparr>finish_return_type := Array_kind\<rparr>))))
      | _ \<Rightarrow>
          Some (Status NotImplemented
                  ''SortArraysToIndicesVisitorImpl: Does not support this type of input.'',
                s))"

text \<open>\<^verbatim>\<open>SetMember\<close>, the same text in \<^verbatim>\<open>ProbeVisitorImpl\<close>, \<^verbatim>\<open>TakeVisitorImpl\<close> and
  \<^verbatim>\<open>NTakeVisitorImpl\<close>.\<close>

definition Probe_SetMember :: "Kernels \<Rightarrow> ExprVisitorImpl \<Rightarrow> Result" where
  "Probe_SetMember E s =
     (if \<not> initialized s then Some (Status Invalid ''Kernel is not initialized'', s)
      else (case kernel s of
              None \<Rightarrow> None
            | Some k \<Rightarrow>
                (let c = SetMember_call (member_record_batch (p_visitor s));
                     s1 = s\<lparr>kernel := Some (called k c)\<rparr>
                 in if \<not> ok (call_status E k c) then Some (call_status E k c, s1)
                    else Some (Status_OK, s1))))"

definition Take_SetMember :: "Kernels \<Rightarrow> ExprVisitorImpl \<Rightarrow> Result" where
  "Take_SetMember E s = Probe_SetMember E s"

definition NTake_SetMember :: "Kernels \<Rightarrow> ExprVisitorImpl \<Rightarrow> Result" where
  "NTake_SetMember E s = Probe_SetMember E s"

text \<open>\<^verbatim>\<open>Finish\<close> of the four classes, which differ in the message only.\<close>

definition single_column_Finish :: "Kernels \<Rightarrow> string \<Rightarrow> ExprVisitorImpl \<Rightarrow> Result" where
  "single_column_Finish E msg s =
     (case Base_Finish s of
        None \<Rightarrow> None
      | Some (st0, s0) \<Rightarrow>
          if \<not> ok st0 then Some (st0, s0)
          else (case finish_return_type s0 of
                  Array_kind \<Rightarrow>
                    (case kernel_Finish_Array E s0 of
                       None \<Rightarrow> None
                     | Some (st, s1) \<Rightarrow>
                         if \<not> ok st then Some (st, s1)
                         else Some (Status_OK, set_return_type Array_kind s1))
                | _ \<Rightarrow> Some (Status NotImplemented msg, s0)))"

definition Probe_Finish :: "Kernels \<Rightarrow> ExprVisitorImpl \<Rightarrow> Result" where
  "Probe_Finish E s =
     single_column_Finish E ''AggregateVisitorImpl only support finish_return_type as Array.'' s"

definition Take_Finish :: "Kernels \<Rightarrow> ExprVisitorImpl \<Rightarrow> Result" where
  "Take_Finish E s = Probe_Finish E s"

definition NTake_Finish :: "Kernels \<Rightarrow> ExprVisitorImpl \<Rightarrow> Result" where
  "NTake_Finish E s = Probe_Finish E s"

definition Sort_Finish :: "Kernels \<Rightarrow> ExprVisitorImpl \<Rightarrow> Result" where
  "Sort_Finish E s =
     single_column_Finish E
       ''SortArraysToIndicesVisitorImpl only support finish_return_type as Array.'' s"

subsection \<open>ShuffleArrayListVisitorImpl\<close>

text \<open>\<^verbatim>\<open>RETURN_NOT_OK(kernel_->SetDependencyInput(p_->in_array_))\<close>.\<close>

definition kernel_SetDependencyInput :: "Kernels \<Rightarrow> ExprVisitorImpl \<Rightarrow> Result" where
  "kernel_SetDependencyInput E s =
     (case kernel s of
        None \<Rightarrow> None
      | Some k \<Rightarrow>
          (let c = SetDependencyInput_call (in_array (p_visitor s))
           in Some (call_status E k c, s\<lparr>kernel := Some (called k c)\<rparr>)))"

definition Shuffle_Init :: "Kernels \<Rightarrow> ExprVisitorImpl \<Rightarrow> Result" where
  "Shuffle_Init E s =
     (if initialized s then Some (Status_OK, s)
      else (case resolve_columns (schema (p_visitor s)) (param_field_names (p_visitor s)) of
              None \<Rightarrow> None
            | Some (st, r) \<Rightarrow>
                (let s1 = push_col_ids (map fst r) (push_result_fields (map snd r) s)
                 in if \<not> ok st then Some (st, s1)
                    else bind_kernel E (ShuffleArrayListKernel (map (type \<circ> snd) r)) s1)))"

definition Shuffle_Eval :: "Kernels \<Rightarrow> ExprVisitorImpl \<Rightarrow> Result" where
  "Shuffle_Eval E s =
     (case checked_columns
             ''ShuffleArrayListVisitorImpl Eval col_id is bigger than input batch numColumns.''
             (in_record_batch (p_visitor s)) (col_id_list s) of
        None \<Rightarrow> None
      | Some (Inl e) \<Rightarrow> Some (e, s)
      | Some (Inr col_list) \<Rightarrow>
          (case dependency_result_type (p_visitor s) of
             None_kind \<Rightarrow>
               (case kernel_Evaluate E (Evaluate_ArrayList col_list) s of
                  None \<Rightarrow> None
                | Some (st, s1) \<Rightarrow>
                    if \<not> ok st then Some (st, s1)
                    else Some (Status_OK, s1\<lparr>finish_return_type := Batch_kind\<rparr>))
           | BatchIterator_kind \<Rightarrow>
               (case kernel s of
                  None \<Rightarrow> None
                | Some k \<Rightarrow>
                    (let c = Evaluate_ArrayList_out_Batch col_list;
                         s1 = s\<lparr>kernel := Some (called k c),
                                p_visitor := (p_visitor s)
                                  \<lparr>result_batch := out_batch E k c (result_batch (p_visitor s))\<rparr>\<rparr>
                     in if \<not> ok (call_status E k c) then Some (call_status E k c, s1)
                        else Some (Status_OK, set_return_type Batch_kind s1)))
           | _ \<Rightarrow>
               Some (Status NotImplemented
                       ''ShuffleArrayListVisitorImpl: Does not support this type of input.'',
                     s)))"

definition Shuffle_Finish :: "Kernels \<Rightarrow> ExprVisitorImpl \<Rightarrow> Result" where
  "Shuffle_Finish E s =
     (case Base_Finish s of
        None \<Rightarrow> None
      | Some (st0, s0) \<Rightarrow>
          if \<not> ok st0 then Some (st0, s0)
          else if in_array (p_visitor s0) = None
          then Some (Status Invalid
                       ''ShuffleArrayListVisitorImpl depends on an indices array to indicate shuffle, while input_array is invalid.'',
                     s0)
          else (case kernel_SetDependencyInput E s0 of
                  None \<Rightarrow> None
                | Some (st1, s1) \<Rightarrow>
                    if \<not> ok st1 then Some (st1, s1)
                    else (case finish_return_type s1 of
                            Batch_kind \<Rightarrow>
                              (case kernel_Finish_Batch E s1 of
                                 None \<Rightarrow> None
                               | Some (st, s2) \<Rightarrow>
                                   if \<not> ok st then Some (st, s2)
                                   else Some (Status_OK, set_return_type Batch_kind s2))
                          | _ \<Rightarrow>
                              Some (Status Invalid
                                      ''ShuffleArrayListVisitorImpl Finish does not support dependency type other than Batch and BatchList.'',
                                    s1))))"

definition Shuffle_SetDependency :: "Kernels \<Rightarrow> ResultIterator option \<Rightarrow> int \<Rightarrow> ExprVisitorImpl \<Rightarrow> Result" where
  "Shuffle_SetDependency E dependency_iter index s =
     (case kernel s of
        None \<Rightarrow> None
      | Some k \<Rightarrow>
          (let c = SetDependencyIter_call dependency_iter index;
               s1 = s\<lparr>kernel := Some (called k c)\<rparr>
           in if \<not> ok (call_status E k c) then Some (call_status E k c, s1)
              else Some (Status_OK,
                         s1\<lparr>p_visitor := (p_visitor s1)
                              \<lparr>dependency_result_type := BatchIterator_kind\<rparr>\<rparr>)))"

definition Shuffle_MakeResultIterator ::
  "Kernels \<Rightarrow> Schema \<Rightarrow> ResultIterator option \<Rightarrow> ExprVisitorImpl \<Rightarrow> (Status \<times> ExprVisitorImpl \<times> ResultIterator option) option" where
  "Shuffle_MakeResultIterator E sch out s =
     (case (if in_array (p_visitor s) \<noteq> None then kernel_SetDependencyInput E s
            else Some (Status_OK, s)) of
        None \<Rightarrow> None
      | Some (st1, s1) \<Rightarrow>
          if \<not> ok st1 then Some (st1, s1, out)
          else (case finish_return_type s1 of
                  Batch_kind \<Rightarrow>
                    (case kernel_MakeResultIterator E sch out s1 of
                       None \<Rightarrow> None
                     | Some (st, s2, out2) \<Rightarrow>
                         if \<not> ok st then Some (st, s2, out2)
                         else Some (Status_OK, set_return_type BatchIterator_kind s2, out2))
                | _ \<Rightarrow>
                    Some (Status Invalid
                            ''ShuffleArrayListVisitorImpl Finish does not support dependency type other than Batch and BatchList.'',
                          s1, out)))"

subsection \<open>ProbeArraysVisitorImpl\<close>

text \<open>
  \<^verbatim>\<open>sizeof(ArrayItemIndex) / sizeof(int32_t)\<close> is 4 (two \<^verbatim>\<open>uint64_t\<close> fields).
  \<^verbatim>\<open>type_list[0]\<close> is read also when the list is empty.
\<close>

definition ProbeArrays_Init :: "Kernels \<Rightarrow> int \<Rightarrow> ExprVisitorImpl \<Rightarrow> Result" where
  "ProbeArrays_Init E join_type s =
     (if initialized s then Some (Status_OK, s)
      else (case resolve_columns (schema (p_visitor s)) (param_field_names (p_visitor s)) of
              None \<Rightarrow> None
            | Some (st, r) \<Rightarrow>
                (let s1 = push_col_ids (map fst r) s;
                     type_list = map (type \<circ> snd) r;
                     c = HashAggrArrayKernel type_list
                 in if \<not> ok st then Some (st, s1)
                    else if length type_list > 1 \<and> \<not> ok (Make_status E c)
                    then Some (Make_status E c, s1)
                    else (case (if length type_list > 1 then Some int64
                                else (case type_list of [] \<Rightarrow> None | t # _ \<Rightarrow> Some t)) of
                            None \<Rightarrow> None
                          | Some data_type \<Rightarrow>
                              (let s2 = (if length type_list > 1
                                         then s1\<lparr>concat_kernel := Some (new_kernel c)\<rparr> else s1);
                                   pk = ProbeArraysKernel data_type join_type
                               in if \<not> ok (Make_status E pk) then Some (Make_status E pk, s2)
                                  else Some (Status_OK,
                                             (push_result_fields
                                                [\<lparr>name = ''res'', type = FixedSizeBinaryType 4\<rparr>]
                                                (s2\<lparr>kernel := Some (new_kernel pk)\<rparr>))
                                               \<lparr>initialized := True\<rparr>))))))"

definition ProbeArrays_Eval :: "Kernels \<Rightarrow> ExprVisitorImpl \<Rightarrow> Result" where
  "ProbeArrays_Eval E s =
     (case dependency_result_type (p_visitor s) of
        None_kind \<Rightarrow>
          (case key_column E s of
             None \<Rightarrow> None
           | Some (Inl e, s1) \<Rightarrow> Some (e, s1)
           | Some (Inr col, s1) \<Rightarrow>
               (case kernel_Evaluate E (Evaluate_Array col) s1 of
                  None \<Rightarrow> None
                | Some (st, s2) \<Rightarrow>
                    if \<not> ok st then Some (st, s2)
                    else Some (Status_OK, s2\<lparr>finish_return_type := Batch_kind\<rparr>)))
      | _ \<Rightarrow>
          Some (Status NotImplemented
                  ''ProbeArraysVisitorImpl: Does not support this type of input.'',
                s))"

definition ProbeArrays_Finish :: "ExprVisitorImpl \<Rightarrow> Result" where
  "ProbeArrays_Finish s = Some (Status_OK, s)"

definition ProbeArrays_MakeResultIterator ::
  "Kernels \<Rightarrow> Schema \<Rightarrow> ResultIterator option \<Rightarrow> ExprVisitorImpl \<Rightarrow> (Status \<times> ExprVisitorImpl \<times> ResultIterator option) option" where
  "ProbeArrays_MakeResultIterator E sch out s =
     (case finish_return_type s of
        Batch_kind \<Rightarrow>
          (case kernel_MakeResultIterator E sch out s of
             None \<Rightarrow> None
           | Some (st, s1, out1) \<Rightarrow>
               if \<not> ok st then Some (st, s1, out1) else Some (Status_OK, s1, out1))
      | _ \<Rightarrow>
          Some (Status NotImplemented
                  ''ProbeArraysVisitorImpl MakeResultIterator: Does not support this type of input'',
                s, out))"

subsection \<open>Virtual dispatch\<close>

definition Init :: "Kernels \<Rightarrow> ExprVisitorImpl \<Rightarrow> Result" where
  "Init E s =
     (case visitor_class s of
        SplitArrayListWithActionVisitorImpl \<Rightarrow> Split_Init E s
      | AggregateVisitorImpl fname \<Rightarrow> Aggregate_Init E fname s
      | EncodeVisitorImpl \<Rightarrow> Encode_Init E s
      | ProbeVisitorImpl \<Rightarrow> Probe_Init E s
      | TakeVisitorImpl \<Rightarrow> Take_Init E s
      | NTakeVisitorImpl \<Rightarrow> NTake_Init E s
      | SortArraysToIndicesVisitorImpl nulls_first asc \<Rightarrow> Sort_Init E nulls_first asc s
      | ShuffleArrayListVisitorImpl \<Rightarrow> Shuffle_Init E s
      | ProbeArraysVisitorImpl join_type \<Rightarrow> ProbeArrays_Init E join_type s)"

definition Eval :: "Kernels \<Rightarrow> ExprVisitorImpl \<Rightarrow> Result" where
  "Eval E s =
     (case visitor_class s of
        SplitArrayListWithActionVisitorImpl \<Rightarrow> Split_Eval E s
      | AggregateVisitorImpl fname \<Rightarrow> Aggregate_Eval E s
      | EncodeVisitorImpl \<Rightarrow> Encode_Eval E s
      | ProbeVisitorImpl \<Rightarrow> Probe_Eval E s
      | TakeVisitorImpl \<Rightarrow> Take_Eval E s
      | NTakeVisitorImpl \<Rightarrow> NTake_Eval E s
      | SortArraysToIndicesVisitorImpl nulls_first asc \<Rightarrow> Sort_Eval E s
      | ShuffleArrayListVisitorImpl \<Rightarrow> Shuffle_Eval E s
      | ProbeArraysVisitorImpl join_type \<Rightarrow> ProbeArrays_Eval E s)"

definition SetMember :: "Kernels \<Rightarrow> ExprVisitorImpl \<Rightarrow> Result" where
  "SetMember E s =
     (case visitor_class s of
        ProbeVisitorImpl \<Rightarrow> Probe_SetMember E s
      | TakeVisitorImpl \<Rightarrow> Take_SetMember E s
      | NTakeVisitorImpl \<Rightarrow> NTake_SetMember E s
      | _ \<Rightarrow> Base_SetMember s)"

definition SetDependency :: "Kernels \<Rightarrow> ResultIterator option \<Rightarrow> int \<Rightarrow> ExprVisitorImpl \<Rightarrow> Result" where
  "SetDependency E dependency_iter index s =
     (case visitor_class s of
        ShuffleArrayListVisitorImpl \<Rightarrow> Shuffle_SetDependency E dependency_iter index s
      | _ \<Rightarrow> Base_SetDependency dependency_iter index s)"

definition Finish :: "Kernels \<Rightarrow> ExprVisitorImpl \<Rightarrow> Result" where
  "Finish E s =
     (case visitor_class s of
        SplitArrayListWithActionVisitorImpl \<Rightarrow> Split_Finish E s
      | AggregateVisitorImpl fname \<Rightarrow> Aggregate_Finish E s
      | EncodeVisitorImpl \<Rightarrow> Encode_Finish s
      | ProbeVisitorImpl \<Rightarrow> Probe_Finish E s
      | TakeVisitorImpl \<Rightarrow> Take_Finish E s
      | NTakeVisitorImpl \<Rightarrow> NTake_Finish E s
      | SortArraysToIndicesVisitorImpl nulls_first asc \<Rightarrow> Sort_Finish E s
      | ShuffleArrayListVisitorImpl \<Rightarrow> Shuffle_Finish E s
      | ProbeArraysVisitorImpl join_type \<Rightarrow> ProbeArrays_Finish s)"

definition MakeResultIterator ::
  "Kernels \<Rightarrow> Schema \<Rightarrow> ResultIterator option \<Rightarrow> ExprVisitorImpl \<Rightarrow> (Status \<times> ExprVisitorImpl \<times> ResultIterator option) option" where
  "MakeResultIterator E sch out s =
     (case visitor_class s of
        SplitArrayListWithActionVisitorImpl \<Rightarrow> Split_MakeResultIterator E sch out s
      | ShuffleArrayListVisitorImpl \<Rightarrow> Shuffle_MakeResultIterator E sch out s
      | ProbeArraysVisitorImpl join_type \<Rightarrow> ProbeArrays_MakeResultIterator E sch out s
      | _ \<Rightarrow> Base_MakeResultIterator sch out s)"

subsection \<open>CreateCodeGenerator (code_generator_factory.h)\<close>

text \<open>
  The constants \<^verbatim>\<open>ARROW_COMPUTE\<close>, \<^verbatim>\<open>GANDIVA\<close> and \<^verbatim>\<open>COMPUTE_EXT\<close> and the method
  \<^verbatim>\<open>ExprVisitor::create\<close> are declared in \<^verbatim>\<open>codegen/expr_visitor.h\<close>, which is not
  among the sources: the three constants (distinct, as labels of one \<^verbatim>\<open>switch\<close>) and
  what \<^verbatim>\<open>create\<close> returns and writes to \<^verbatim>\<open>codegen_type\<close> are arguments.
\<close>

record CodegenTypes =
  ARROW_COMPUTE :: int
  GANDIVA :: int
  COMPUTE_EXT :: int

type_synonym Expression = string

datatype CodeGenerator =
  ArrowComputeCodeGenerator Schema "Expression list" "Field list" bool
  | GandivaCodeGenerator Schema "Expression list" "Field list" bool
  | ComputeExtCodeGenerator Schema "Expression list" "Field list" bool

definition CreateCodeGenerator ::
  "CodegenTypes \<Rightarrow> (Expression list \<Rightarrow> Status \<times> int) \<Rightarrow> Schema \<Rightarrow> Expression list \<Rightarrow> Field list \<Rightarrow> bool \<Rightarrow> Status \<times> CodeGenerator option" where
  "CreateCodeGenerator T create schema_ptr exprs_vector ret_types return_when_finish =
     (case create exprs_vector of
        (status, codegen_type) \<Rightarrow>
          if codegen_type = ARROW_COMPUTE T
          then (status,
                Some (ArrowComputeCodeGenerator schema_ptr exprs_vector ret_types return_when_finish))
          else if codegen_type = GANDIVA T
          then (status,
                Some (GandivaCodeGenerator schema_ptr exprs_vector ret_types return_when_finish))
          else if codegen_type = COMPUTE_EXT T
          then (status,
                Some (ComputeExtCodeGenerator schema_ptr exprs_vector ret_types return_when_finish))
          else (Status TypeError ''Unrecognized expression type.'', None))"

subsection \<open>Which tags an Eval method has a case for\<close>

text \<open>
  The \<^verbatim>\<open>case\<close> labels of the \<^verbatim>\<open>switch (p_->dependency_result_type_)\<close> of each
  \<^verbatim>\<open>Eval\<close>, and the message of each \<^verbatim>\<open>default:\<close> branch.
\<close>

fun supported :: "VisitorClass \<Rightarrow> ArrowComputeResultType \<Rightarrow> bool" where
  "supported SplitArrayListWithActionVisitorImpl t = (t = Array_kind)"
| "supported ShuffleArrayListVisitorImpl t = (t = None_kind \<or> t = BatchIterator_kind)"
| "supported c t = (t = None_kind)"

fun Eval_default_message :: "VisitorClass \<Rightarrow> string" where
  "Eval_default_message SplitArrayListWithActionVisitorImpl =
     ''SplitArrayListWithActionVisitorImpl: Does not support this type of input.''"
| "Eval_default_message (AggregateVisitorImpl fname) =
     ''AggregateVisitorImpl: Does not support this type of input.''"
| "Eval_default_message (SortArraysToIndicesVisitorImpl nulls_first asc) =
     ''SortArraysToIndicesVisitorImpl: Does not support this type of input.''"
| "Eval_default_message ShuffleArrayListVisitorImpl =
     ''ShuffleArrayListVisitorImpl: Does not support this type of input.''"
| "Eval_default_message (ProbeArraysVisitorImpl join_type) =
     ''ProbeArraysVisitorImpl: Does not support this type of input.''"
| "Eval_default_message c = ''EncodeVisitorImpl: Does not support this type of input.''"

text \<open>The name of each class, as the source declares it.\<close>

fun class_name :: "VisitorClass \<Rightarrow> string" where
  "class_name SplitArrayListWithActionVisitorImpl = ''SplitArrayListWithActionVisitorImpl''"
| "class_name (AggregateVisitorImpl fname) = ''AggregateVisitorImpl''"
| "class_name EncodeVisitorImpl = ''EncodeVisitorImpl''"
| "class_name ProbeVisitorImpl = ''ProbeVisitorImpl''"
| "class_name TakeVisitorImpl = ''TakeVisitorImpl''"
| "class_name NTakeVisitorImpl = ''NTakeVisitorImpl''"
| "class_name (SortArraysToIndicesVisitorImpl nulls_first asc) = ''SortArraysToIndicesVisitorImpl''"
| "class_name ShuffleArrayListVisitorImpl = ''ShuffleArrayListVisitorImpl''"
| "class_name (ProbeArraysVisitorImpl join_type) = ''ProbeArraysVisitorImpl''"

text \<open>Every index of \<^verbatim>\<open>col_id_list_\<close> is a column of the current input batch.\<close>

definition columns_in_range :: "ExprVisitorImpl \<Rightarrow> bool" where
  "columns_in_range s =
     list_all (\<lambda>i. case in_record_batch (p_visitor s) of
                      None \<Rightarrow> False
                    | Some cols \<Rightarrow> 0 \<le> i \<and> i < int (length cols))
       (col_id_list s)"

subsection \<open>Example inputs\<close>

text \<open>Kernels that accept every call and leave every output holder but the iterator as it is.\<close>

definition ok_kernels :: Kernels where
  "ok_kernels =
     \<lparr>Make_status = (\<lambda>c. Status_OK),
      call_status = (\<lambda>k c. Status_OK),
      out_array = (\<lambda>k c a. a),
      out_batch = (\<lambda>k c b. b),
      out_iterator = (\<lambda>k c it. Some (ResultIterator []))\<rparr>"

text \<open>Kernels that accept every call but \<^verbatim>\<open>MakeResultIterator\<close>, which they refuse.\<close>

definition iterator_refusing_kernels :: Kernels where
  "iterator_refusing_kernels =
     ok_kernels
       \<lparr>call_status :=
          (\<lambda>k c. case c of
                    MakeResultIterator_call sch \<Rightarrow> Status IOError ''no iterator''
                  | _ \<Rightarrow> Status_OK)\<rparr>"

text \<open>
  A context over the schema \<open>(a: int64, b: int64)\<close> whose parameter is the column \<open>b\<close>
  and whose current input batch has one column only.
\<close>

definition example_visitor :: ExprVisitor where
  "example_visitor =
     \<lparr>func_name = ''example'',
      schema = [\<lparr>name = ''a'', type = int64\<rparr>, \<lparr>name = ''b'', type = int64\<rparr>],
      param_field_names = [''b''],
      action_name_list = [''action_sum''],
      action_param_list = [''b''],
      result_fields = [],
      dependency_result_type = None_kind,
      in_record_batch = Some [[Some 1, None]],
      in_array = None,
      member_record_batch = None,
      result_array = None,
      result_batch = [],
      return_type = None_kind\<rparr>"

text \<open>The same context with an input batch of two columns.\<close>

definition example_visitor2 :: ExprVisitor where
  "example_visitor2 = example_visitor\<lparr>in_record_batch := Some [[Some 1, None], [Some 2, Some 3]]\<rparr>"

text \<open>
  An operator of class \<open>c\<close> as \<^verbatim>\<open>Init\<close> leaves it on a context \<open>ctx\<close> of this schema
  whose parameter is the column \<open>b\<close>: bound to a fresh kernel \<open>k\<close>, with the resolved
  indices \<open>ids\<close> and \<open>cid\<close>.
\<close>

definition initialized_on :: "VisitorClass \<Rightarrow> ExprVisitor \<Rightarrow> KernelClass \<Rightarrow> int list \<Rightarrow> int \<Rightarrow> ExprVisitorImpl" where
  "initialized_on c ctx k ids cid =
     \<lparr>visitor_class = c,
      p_visitor = ctx\<lparr>result_fields := [\<lparr>name = ''b'', type = int64\<rparr>]\<rparr>,
      initialized = True, finish_return_type = None_kind,
      kernel = Some (new_kernel k), col_id_list = ids, col_id = cid, concat_kernel = None\<rparr>"

text \<open>
  The probe-arrays operator after \<^verbatim>\<open>Init\<close> on the two-column context; the shuffle
  operator after \<^verbatim>\<open>Init\<close> and one \<^verbatim>\<open>Eval\<close> with the tag \<open>None\<close> on it, the case
  the source comments with \<^verbatim>\<open>This indicates shuffle indices was not cooked yet\<close>: the
  kernel has received the columns and the context holds no indices array; and the split
  operator after \<^verbatim>\<open>Init\<close> on that context with the tag \<open>Array\<close> and an indices array.
\<close>

definition probe_arrays_example :: ExprVisitorImpl where
  "probe_arrays_example =
     (initialized_on (ProbeArraysVisitorImpl 0) example_visitor2 (ProbeArraysKernel int64 0) [1] 0)
       \<lparr>p_visitor := example_visitor2\<lparr>result_fields := [\<lparr>name = ''res'', type = FixedSizeBinaryType 4\<rparr>]\<rparr>\<rparr>"

definition shuffle_evaluated :: ExprVisitorImpl where
  "shuffle_evaluated =
     (initialized_on ShuffleArrayListVisitorImpl example_visitor2 (ShuffleArrayListKernel [int64])
        [1] 0)
       \<lparr>finish_return_type := Batch_kind,
        kernel := Some (called (new_kernel (ShuffleArrayListKernel [int64]))
                          (Evaluate_ArrayList [[Some 2, Some 3]]))\<rparr>"

definition split_example :: ExprVisitorImpl where
  "split_example =
     initialized_on SplitArrayListWithActionVisitorImpl
       (example_visitor2\<lparr>dependency_result_type := Array_kind, in_array := Some [Some 0, Some 1]\<rparr>)
       (SplitArrayListWithActionKernel [''action_sum''] [int64]) [1] 0"

text \<open>
  A context over the schema \<open>(s: int64, cnt: int64)\<close>, the output of a \<open>sum_count\<close>
  stage, whose parameters name the count column first.
\<close>

definition count_first_visitor :: ExprVisitor where
  "count_first_visitor =
     example_visitor
       \<lparr>schema := [\<lparr>name = ''s'', type = int64\<rparr>, \<lparr>name = ''cnt'', type = int64\<rparr>],
        param_field_names := [''cnt'', ''s'']\<rparr>"

section \<open>Properties\<close>

subsection \<open>Basic facts\<close>

lemma ok_Status_OK [simp]: "ok Status_OK"
  by (simp add: ok_def Status_OK_def)

lemma not_ok_error [simp]:
  "\<not> ok (Status Invalid m)" "\<not> ok (Status NotImplemented m)" "\<not> ok (Status TypeError m)"
  by (simp_all add: ok_def)

lemmas method_defs =
  Init_def Eval_def Finish_def SetMember_def SetDependency_def MakeResultIterator_def
  Split_Init_def Split_Eval_def Split_Finish_def Split_MakeResultIterator_def
  Aggregate_Init_def Aggregate_Eval_def Aggregate_Finish_def
  Encode_Init_def Encode_Eval_def Encode_Finish_def key_column_def
  single_column_Init_def Probe_Init_def Take_Init_def NTake_Init_def Sort_Init_def
  Probe_Eval_def Take_Eval_def NTake_Eval_def Sort_Eval_def
  Probe_SetMember_def Take_SetMember_def NTake_SetMember_def
  single_column_Finish_def Probe_Finish_def Take_Finish_def NTake_Finish_def Sort_Finish_def
  Shuffle_Init_def Shuffle_Eval_def Shuffle_Finish_def Shuffle_SetDependency_def
  Shuffle_MakeResultIterator_def
  ProbeArrays_Init_def ProbeArrays_Eval_def ProbeArrays_Finish_def
  ProbeArrays_MakeResultIterator_def
  Base_Eval_def Base_Init_def Base_SetMember_def Base_SetDependency_def Base_Finish_def
  Base_MakeResultIterator_def
  bind_kernel_def push_result_fields_def push_col_ids_def kernel_Evaluate_def
  kernel_Finish_Array_def kernel_Finish_Batch_def kernel_MakeResultIterator_def
  kernel_SetDependencyInput_def set_return_type_def

lemmas example_defs =
  ok_kernels_def iterator_refusing_kernels_def count_first_visitor_def example_visitor_def example_visitor2_def initialized_on_def Make_def
  GetColumnIdAndFieldByName_def num_columns_def column_def new_kernel_def called_def
  columns_in_range_def

text \<open>The schema gives a field whenever it gives an index, so the loop of \<^verbatim>\<open>Init\<close> never
  dereferences a null field.\<close>

lemma GetFieldByName_found: "GetFieldByName sch n = None \<Longrightarrow> GetFieldIndex sch n < 0"
  by (induction sch) (auto simp: Let_def split: if_splits)

lemma resolve_columns_total: "resolve_columns sch ns \<noteq> None"
proof (induction ns)
  case Nil
  show ?case by simp
next
  case (Cons n ns)
  then show ?case
    by (auto simp: GetColumnIdAndFieldByName_def Let_def split: option.splits
        dest: GetFieldByName_found)
qed

lemma checked_columns_ok:
  "list_all (\<lambda>i. case b of None \<Rightarrow> False | Some cols \<Rightarrow> 0 \<le> i \<and> i < int (length cols)) ids
   \<Longrightarrow> \<exists>cols. checked_columns msg b ids = Some (Inr cols)"
  by (induction ids) (auto simp: num_columns_def column_def split: option.splits)

lemma checked_columns_in_range:
  "columns_in_range s \<Longrightarrow>
   \<exists>cols. checked_columns msg (in_record_batch (p_visitor s)) (col_id_list s) = Some (Inr cols)"
  unfolding columns_in_range_def by (rule checked_columns_ok)

subsection \<open>A successful Init sets the flag\<close>

lemma bind_kernel_ok:
  "bind_kernel E c s = Some (st, s') \<Longrightarrow> ok st \<Longrightarrow>
   initialized s' \<and> visitor_class s' = visitor_class s \<and> kernel s' \<noteq> None"
  by (auto simp: bind_kernel_def split: if_splits)

lemma Split_Init_ok:
  "Split_Init E s = Some (st, s') \<Longrightarrow> ok st \<Longrightarrow>
   initialized s' \<and> visitor_class s' = visitor_class s"
  by (auto simp: Split_Init_def Let_def push_col_ids_def push_result_fields_def
      split: if_splits option.splits prod.splits dest!: bind_kernel_ok)

lemma Aggregate_Init_ok:
  "Aggregate_Init E f s = Some (st, s') \<Longrightarrow> ok st \<Longrightarrow>
   initialized s' \<and> visitor_class s' = visitor_class s"
  by (auto simp: Aggregate_Init_def Let_def push_col_ids_def push_result_fields_def
      split: if_splits option.splits prod.splits list.splits dest!: bind_kernel_ok)

lemma Encode_Init_ok:
  "Encode_Init E s = Some (st, s') \<Longrightarrow> ok st \<Longrightarrow>
   initialized s' \<and> visitor_class s' = visitor_class s"
  by (auto simp: Encode_Init_def Let_def push_col_ids_def push_result_fields_def
      split: if_splits option.splits prod.splits)

lemma single_column_Init_ok:
  "single_column_Init E c m s = Some (st, s') \<Longrightarrow> ok st \<Longrightarrow>
   initialized s' \<and> visitor_class s' = visitor_class s"
  by (auto simp: single_column_Init_def Let_def push_result_fields_def
      split: if_splits option.splits prod.splits list.splits)

lemma Shuffle_Init_ok:
  "Shuffle_Init E s = Some (st, s') \<Longrightarrow> ok st \<Longrightarrow>
   initialized s' \<and> visitor_class s' = visitor_class s"
  by (auto simp: Shuffle_Init_def Let_def push_col_ids_def push_result_fields_def
      split: if_splits option.splits prod.splits dest!: bind_kernel_ok)

lemma ProbeArrays_Init_ok:
  "ProbeArrays_Init E j s = Some (st, s') \<Longrightarrow> ok st \<Longrightarrow>
   initialized s' \<and> visitor_class s' = visitor_class s"
  by (auto simp: ProbeArrays_Init_def Let_def push_col_ids_def push_result_fields_def
      split: if_splits option.splits prod.splits list.splits)

lemma Init_ok_initialized:
  assumes "Init E s = Some (st, s')" and "ok st"
  shows "initialized s' \<and> visitor_class s' = visitor_class s"
  using assms
  by (cases "visitor_class s")
     (auto simp: Init_def Probe_Init_def Take_Init_def NTake_Init_def Sort_Init_def
       dest: Split_Init_ok Aggregate_Init_ok Encode_Init_ok single_column_Init_ok
         Shuffle_Init_ok ProbeArrays_Init_ok)

lemma Init_initialized: "initialized s \<Longrightarrow> Init E s = Some (Status_OK, s)"
  by (cases "visitor_class s")
     (simp_all add: Init_def Split_Init_def Aggregate_Init_def Encode_Init_def Probe_Init_def
       Take_Init_def NTake_Init_def Sort_Init_def single_column_Init_def Shuffle_Init_def
       ProbeArrays_Init_def)

subsection \<open>Eval on a tag the class has no case for\<close>

lemma Eval_unsupported_default:
  assumes "\<not> supported (visitor_class s) (dependency_result_type (p_visitor s))"
    and "visitor_class s = ShuffleArrayListVisitorImpl \<longrightarrow> columns_in_range s"
  shows "Eval E s = Some (Status NotImplemented (Eval_default_message (visitor_class s)), s)"
proof (cases "visitor_class s")
  case ShuffleArrayListVisitorImpl
  with assms(2) obtain cols where
    "checked_columns
       ''ShuffleArrayListVisitorImpl Eval col_id is bigger than input batch numColumns.''
       (in_record_batch (p_visitor s)) (col_id_list s) = Some (Inr cols)"
    using checked_columns_in_range by blast
  with ShuffleArrayListVisitorImpl assms(1) show ?thesis
    by (simp add: Eval_def Shuffle_Eval_def split: ArrowComputeResultType.splits)
qed (use assms(1) in \<open>simp_all add: Eval_def Split_Eval_def Aggregate_Eval_def Encode_Eval_def
      Probe_Eval_def Take_Eval_def NTake_Eval_def Sort_Eval_def ProbeArrays_Eval_def
      split: ArrowComputeResultType.splits\<close>)

lemma Eval_default_message_names_class:
  assumes "c \<noteq> ProbeVisitorImpl" and "c \<noteq> TakeVisitorImpl" and "c \<noteq> NTakeVisitorImpl"
  shows "Eval_default_message c = class_name c @ '': Does not support this type of input.''"
  using assms by (cases c) simp_all

text \<open>
  C1 (as amended). There is one message for each operator class, a function of the class
  alone (so neither of the tag nor of anything else in the operator or the context),
  such that, for every operator and whatever the kernels, \<^verbatim>\<open>Eval\<close> on a
  \<^verbatim>\<open>dependency_result_type_\<close> that the class's \<^verbatim>\<open>switch\<close> has no case for returns
  \<^verbatim>\<open>NotImplemented\<close> with that message and leaves the operator and the whole context,
  so also the result array, the result batch and the return type, as they were. For the
  split, aggregate, encode, sort, shuffle and probe-arrays classes the message names the
  operator: it is the class name followed by \<open>: Does not support this type of input.\<close>.
  For \<^verbatim>\<open>ShuffleArrayListVisitorImpl\<close>, whose \<^verbatim>\<open>Eval\<close> collects its columns before the
  \<^verbatim>\<open>switch\<close>, this holds when every resolved index is a column of the input batch.
\<close>

theorem Eval_unsupported_tag:
  "\<exists>msg_of.
     (\<forall>c. c \<noteq> ProbeVisitorImpl \<and> c \<noteq> TakeVisitorImpl \<and> c \<noteq> NTakeVisitorImpl \<longrightarrow>
        msg_of c = class_name c @ '': Does not support this type of input.'') \<and>
     (\<forall>E s. \<not> supported (visitor_class s) (dependency_result_type (p_visitor s)) \<and>
            (visitor_class s = ShuffleArrayListVisitorImpl \<longrightarrow> columns_in_range s) \<longrightarrow>
        Eval E s = Some (Status NotImplemented (msg_of (visitor_class s)), s))"
proof (intro exI [of _ Eval_default_message] conjI allI impI)
  fix c
  assume "c \<noteq> ProbeVisitorImpl \<and> c \<noteq> TakeVisitorImpl \<and> c \<noteq> NTakeVisitorImpl"
  then show "Eval_default_message c = class_name c @ '': Does not support this type of input.''"
    by (simp add: Eval_default_message_names_class)
next
  fix E s
  assume "\<not> supported (visitor_class s) (dependency_result_type (p_visitor s)) \<and>
          (visitor_class s = ShuffleArrayListVisitorImpl \<longrightarrow> columns_in_range s)"
  then show "Eval E s = Some (Status NotImplemented (Eval_default_message (visitor_class s)), s)"
    by (simp add: Eval_unsupported_default)
qed

theorem Eval_unsupported_tag_witness:
  "columns_in_range
     (initialized_on ShuffleArrayListVisitorImpl
        (example_visitor2\<lparr>dependency_result_type := Array_kind\<rparr>)
        (ShuffleArrayListKernel [int64]) [1] 0) \<and>
   \<not> supported ShuffleArrayListVisitorImpl Array_kind \<and>
   Eval ok_kernels
     (initialized_on ShuffleArrayListVisitorImpl
        (example_visitor2\<lparr>dependency_result_type := Array_kind\<rparr>)
        (ShuffleArrayListKernel [int64]) [1] 0) =
   Some (Status NotImplemented
           ''ShuffleArrayListVisitorImpl: Does not support this type of input.'',
         initialized_on ShuffleArrayListVisitorImpl
           (example_visitor2\<lparr>dependency_result_type := Array_kind\<rparr>)
           (ShuffleArrayListKernel [int64]) [1] 0)"
proof -
  let ?s = "initialized_on ShuffleArrayListVisitorImpl
              (example_visitor2\<lparr>dependency_result_type := Array_kind\<rparr>)
              (ShuffleArrayListKernel [int64]) [1] 0"
  have r: "columns_in_range ?s"
    by (simp add: example_defs)
  have c: "visitor_class ?s = ShuffleArrayListVisitorImpl"
    by (simp add: initialized_on_def)
  have t: "dependency_result_type (p_visitor ?s) = Array_kind"
    by (simp add: initialized_on_def)
  from Eval_unsupported_tag obtain msg_of where
    names: "\<forall>c. c \<noteq> ProbeVisitorImpl \<and> c \<noteq> TakeVisitorImpl \<and> c \<noteq> NTakeVisitorImpl \<longrightarrow>
        msg_of c = class_name c @ '': Does not support this type of input.''"
    and fails: "\<forall>E s. \<not> supported (visitor_class s) (dependency_result_type (p_visitor s)) \<and>
            (visitor_class s = ShuffleArrayListVisitorImpl \<longrightarrow> columns_in_range s) \<longrightarrow>
        Eval E s = Some (Status NotImplemented (msg_of (visitor_class s)), s)"
    by blast
  from names have
    "msg_of ShuffleArrayListVisitorImpl =
     ''ShuffleArrayListVisitorImpl: Does not support this type of input.''"
    by simp
  moreover from fails r c t have
    "Eval ok_kernels ?s = Some (Status NotImplemented (msg_of ShuffleArrayListVisitorImpl), ?s)"
    by simp
  ultimately show ?thesis
    using r by simp
qed

text \<open>
  C1 as stated fails. A shuffle operator initialized on the column \<open>b\<close> (index 1), given
  the tag \<open>Array\<close>, for which its \<^verbatim>\<open>switch\<close> has no case, and an input batch of one
  column, returns \<^verbatim>\<open>Invalid\<close> from the loop before the \<^verbatim>\<open>switch\<close>, not
  \<^verbatim>\<open>NotImplemented\<close>. And the error does not name the tag: an aggregate operator
  returns the same message for the tag \<open>Array\<close> and for the tag \<open>Batch\<close>.
\<close>

theorem Eval_unsupported_tag_counterexample:
  "\<not> supported ShuffleArrayListVisitorImpl Array_kind \<and>
   Init ok_kernels
     (Make ShuffleArrayListVisitorImpl (example_visitor\<lparr>dependency_result_type := Array_kind\<rparr>)
        None_kind 0) =
   Some (Status_OK,
         initialized_on ShuffleArrayListVisitorImpl
           (example_visitor\<lparr>dependency_result_type := Array_kind\<rparr>)
           (ShuffleArrayListKernel [int64]) [1] 0) \<and>
   Eval ok_kernels
     (initialized_on ShuffleArrayListVisitorImpl
        (example_visitor\<lparr>dependency_result_type := Array_kind\<rparr>)
        (ShuffleArrayListKernel [int64]) [1] 0) =
   Some (Status Invalid
           ''ShuffleArrayListVisitorImpl Eval col_id is bigger than input batch numColumns.'',
         initialized_on ShuffleArrayListVisitorImpl
           (example_visitor\<lparr>dependency_result_type := Array_kind\<rparr>)
           (ShuffleArrayListKernel [int64]) [1] 0) \<and>
   Eval ok_kernels
     (initialized_on (AggregateVisitorImpl ''sum'')
        (example_visitor2\<lparr>dependency_result_type := Array_kind\<rparr>) (SumArrayKernel int64) [1] 0) =
   Some (Status NotImplemented ''AggregateVisitorImpl: Does not support this type of input.'',
         initialized_on (AggregateVisitorImpl ''sum'')
           (example_visitor2\<lparr>dependency_result_type := Array_kind\<rparr>) (SumArrayKernel int64) [1] 0) \<and>
   Eval ok_kernels
     (initialized_on (AggregateVisitorImpl ''sum'')
        (example_visitor2\<lparr>dependency_result_type := Batch_kind\<rparr>) (SumArrayKernel int64) [1] 0) =
   Some (Status NotImplemented ''AggregateVisitorImpl: Does not support this type of input.'',
         initialized_on (AggregateVisitorImpl ''sum'')
           (example_visitor2\<lparr>dependency_result_type := Batch_kind\<rparr>) (SumArrayKernel int64) [1] 0)"
  by (simp add: method_defs example_defs)

subsection \<open>Init is idempotent\<close>

text \<open>
  C3. For every operator class, after an \<^verbatim>\<open>Init\<close> that returned OK, a second
  \<^verbatim>\<open>Init\<close> (with whatever kernels) returns OK and the operator with its context is
  exactly as the first call left it: nothing is appended to \<^verbatim>\<open>result_fields_\<close>, the
  resolved indices are the same, and the kernel is the same object, not a new one.
\<close>

theorem Init_idempotent:
  assumes "Init E s = Some (st, s')" and "ok st"
  shows "Init E' s' = Some (Status_OK, s')"
  using Init_ok_initialized [OF assms] by (simp add: Init_initialized)

theorem Init_idempotent_witness:
  "Init ok_kernels (Make (AggregateVisitorImpl ''sum'') example_visitor None_kind 0) =
     Some (Status_OK,
           initialized_on (AggregateVisitorImpl ''sum'') example_visitor (SumArrayKernel int64) [1] 0) \<and>
   ok Status_OK \<and>
   Init ok_kernels
     (initialized_on (AggregateVisitorImpl ''sum'') example_visitor (SumArrayKernel int64) [1] 0) =
     Some (Status_OK,
           initialized_on (AggregateVisitorImpl ''sum'') example_visitor (SumArrayKernel int64) [1] 0)"
proof -
  have first:
    "Init ok_kernels (Make (AggregateVisitorImpl ''sum'') example_visitor None_kind 0) =
     Some (Status_OK,
           initialized_on (AggregateVisitorImpl ''sum'') example_visitor (SumArrayKernel int64) [1] 0)"
    by (simp add: method_defs example_defs)
  from Init_idempotent [OF first ok_Status_OK, of ok_kernels] first show ?thesis
    by simp
qed

subsection \<open>The bound check of Eval\<close>

text \<open>
  Four of the nine classes compare the resolved index with \<^verbatim>\<open>num_columns()\<close> before
  they read the column: the split, aggregate and shuffle operators in their loop, the
  sort operator on its single index.
\<close>

lemma checked_columns_out_of_range:
  "list_all (\<lambda>i. 0 \<le> i) ids \<Longrightarrow> list_ex (\<lambda>i. int (length cols) \<le> i) ids \<Longrightarrow>
   checked_columns msg (Some cols) ids = Some (Inl (Status Invalid msg))"
  by (induction ids) (auto simp: num_columns_def column_def)

lemma Eval_bound_checked:
  assumes "in_record_batch (p_visitor s) = Some cols"
    and "list_all (\<lambda>i. 0 \<le> i) (col_id_list s)"
    and "list_ex (\<lambda>i. int (length cols) \<le> i) (col_id_list s)"
  shows "visitor_class s = SplitArrayListWithActionVisitorImpl \<Longrightarrow>
         dependency_result_type (p_visitor s) = Array_kind \<Longrightarrow>
         \<exists>m. Eval E s = Some (Status Invalid m, s)"
    and "visitor_class s = AggregateVisitorImpl f \<Longrightarrow>
         dependency_result_type (p_visitor s) = None_kind \<Longrightarrow>
         \<exists>m. Eval E s = Some (Status Invalid m, s)"
    and "visitor_class s = ShuffleArrayListVisitorImpl \<Longrightarrow>
         \<exists>m. Eval E s = Some (Status Invalid m, s)"
  using assms
  by (simp_all add: Eval_def Split_Eval_def Aggregate_Eval_def Shuffle_Eval_def
      checked_columns_out_of_range)

lemma Sort_Eval_bound_checked:
  assumes "in_record_batch (p_visitor s) = Some cols"
    and "int (length cols) \<le> col_id s"
    and "visitor_class s = SortArraysToIndicesVisitorImpl nf asc"
    and "dependency_result_type (p_visitor s) = None_kind"
  shows "\<exists>m. Eval E s = Some (Status Invalid m, s)"
  using assms by (simp add: Eval_def Sort_Eval_def num_columns_def)

text \<open>
  C2 does not hold of the code. \<^verbatim>\<open>TakeVisitorImpl::Eval\<close> (and, with the same text,
  the probe-build and n-take operators; the encode and probe-arrays operators in
  \<open>key_column\<close>) reads \<^verbatim>\<open>column(col_id_)\<close> with no comparison: a take operator
  initialized on the column \<open>b\<close> (index 1) and given a batch of one column reads outside
  the batch, which is undefined, where C2 asks for \<^verbatim>\<open>Invalid\<close>.
\<close>

theorem Take_Eval_out_of_range:
  "Init ok_kernels (Make TakeVisitorImpl example_visitor None_kind 0) =
     Some (Status_OK, initialized_on TakeVisitorImpl example_visitor TakeArrayKernel [] 1) \<and>
   num_columns (in_record_batch example_visitor) = Some 1 \<and>
   Eval ok_kernels (initialized_on TakeVisitorImpl example_visitor TakeArrayKernel [] 1) = None"
  by (simp add: method_defs example_defs)

subsection \<open>SetMember\<close>

text \<open>
  C4 (as amended). For the three classes that override \<^verbatim>\<open>SetMember\<close> (probe-build,
  take, n-take): before a successful \<^verbatim>\<open>Init\<close> it returns \<^verbatim>\<open>Status::Invalid\<close>, the
  code that a column missing from the schema gets as well, and changes nothing; on an
  initialized operator with its kernel it passes \<^verbatim>\<open>member_record_batch_\<close> to the
  kernel's \<^verbatim>\<open>SetMember\<close> and returns OK when the kernel does, the kernel's error
  otherwise.
\<close>

theorem SetMember_lifecycle:
  assumes "visitor_class s = ProbeVisitorImpl \<or> visitor_class s = TakeVisitorImpl \<or>
           visitor_class s = NTakeVisitorImpl"
  shows "(\<not> initialized s \<longrightarrow>
            SetMember E s = Some (Status Invalid ''Kernel is not initialized'', s)) \<and>
         (\<forall>k. initialized s \<and> kernel s = Some k \<longrightarrow>
            SetMember E s =
            Some (if ok (call_status E k (SetMember_call (member_record_batch (p_visitor s))))
                  then Status_OK
                  else call_status E k (SetMember_call (member_record_batch (p_visitor s))),
                  s\<lparr>kernel :=
                      Some (called k (SetMember_call (member_record_batch (p_visitor s))))\<rparr>))"
  using assms
  by (auto simp: SetMember_def Probe_SetMember_def Take_SetMember_def NTake_SetMember_def Let_def)

theorem SetMember_lifecycle_witness:
  "SetMember ok_kernels (Make TakeVisitorImpl example_visitor None_kind 0) =
     Some (Status Invalid ''Kernel is not initialized'',
           Make TakeVisitorImpl example_visitor None_kind 0) \<and>
   SetMember ok_kernels (initialized_on TakeVisitorImpl example_visitor TakeArrayKernel [] 1) =
     Some (Status_OK,
           (initialized_on TakeVisitorImpl example_visitor TakeArrayKernel [] 1)
             \<lparr>kernel := Some (called (new_kernel TakeArrayKernel) (SetMember_call None))\<rparr>)"
  using SetMember_lifecycle [of "Make TakeVisitorImpl example_visitor None_kind 0" ok_kernels]
    SetMember_lifecycle [of "initialized_on TakeVisitorImpl example_visitor TakeArrayKernel [] 1"
      ok_kernels]
  by (simp add: example_defs)

text \<open>
  C4 as stated fails: the status of \<^verbatim>\<open>SetMember\<close> before \<^verbatim>\<open>Init\<close> has the code
  \<^verbatim>\<open>Invalid\<close>, the very code of the error for a column name that is not in the
  schema; the code has no separate kind for a call out of order.
\<close>

theorem SetMember_lifecycle_counterexample:
  "SetMember ok_kernels (Make TakeVisitorImpl example_visitor None_kind 0) =
     Some (Status Invalid ''Kernel is not initialized'',
           Make TakeVisitorImpl example_visitor None_kind 0) \<and>
   code (fst (GetColumnIdAndFieldByName (schema example_visitor) ''c'')) = Invalid"
  by (simp add: method_defs example_defs)

text \<open>A successful \<^verbatim>\<open>Init\<close> of a new operator of these classes leaves it with a kernel.\<close>

lemma Init_binds_kernel:
  assumes "Init E (Make c ctx frt cid) = Some (st, s)" and "ok st"
    and "c = ProbeVisitorImpl \<or> c = TakeVisitorImpl \<or> c = NTakeVisitorImpl"
  shows "initialized s \<and> kernel s \<noteq> None"
  using assms
  by (auto simp: Init_def Probe_Init_def Take_Init_def NTake_Init_def single_column_Init_def
      Make_def Let_def push_result_fields_def
      split: if_splits list.splits prod.splits option.splits)

subsection \<open>The count field of the aggregate operator\<close>

lemma bind_kernel_result:
  "\<exists>s'. bind_kernel E c s =
          Some (if ok (Make_status E c) then Status_OK else Make_status E c, s') \<and>
        p_visitor s' = p_visitor s"
  by (simp add: bind_kernel_def)

lemma Aggregate_Init_sum_count:
  assumes "\<not> initialized s"
    and "resolve_columns (schema (p_visitor s)) (param_field_names (p_visitor s)) =
         Some (Status_OK, r)"
    and "result_fields (p_visitor s) @ map snd r = f0 # fs"
  shows "Aggregate_Init E ''sum_count'' s =
         bind_kernel E (SumCountArrayKernel (type f0))
           (push_result_fields [\<lparr>name = ''cnt'', type = int64\<rparr>]
              (push_col_ids (map fst r) (push_result_fields (map snd r) s)))"
  using assms by (simp add: Aggregate_Init_def Let_def push_result_fields_def push_col_ids_def)

lemma Aggregate_Init_avgByCount:
  assumes "\<not> initialized s"
    and "resolve_columns (schema (p_visitor s)) (param_field_names (p_visitor s)) =
         Some (Status_OK, r)"
    and "result_fields (p_visitor s) @ map snd r = f0 # fs"
  shows "Aggregate_Init E ''avgByCount'' s =
         bind_kernel E (AvgByCountArrayKernel (type f0))
           ((push_col_ids (map fst r) (push_result_fields (map snd r) s))
              \<lparr>p_visitor := (p_visitor s)
                 \<lparr>result_fields := butlast (result_fields (p_visitor s) @ map snd r)\<rparr>\<rparr>)"
  using assms by (simp add: Aggregate_Init_def Let_def push_result_fields_def push_col_ids_def)

text \<open>
  C5 (as amended). Take an aggregate operator that is not initialized, whose parameter
  columns all resolve (to the indices and fields \<open>r\<close>) and whose field list is not empty
  after they are appended. With the function name \<open>sum_count\<close>, \<^verbatim>\<open>Init\<close> leaves in
  \<^verbatim>\<open>result_fields_\<close> the earlier fields, the fields of the parameter columns and then
  exactly one more field, \<open>cnt\<close> of type \<open>int64\<close>: one entry more than the earlier
  fields and the parameters. With \<open>avgByCount\<close> it appends the fields of the parameter
  columns and removes the last entry of the list, whichever field that is: one entry
  fewer than the earlier fields and the parameters. So with at least one parameter the
  removed field is the last parameter's, and when that field (the count column, by
  position) occurs nowhere else in the list, the list that is left does not contain it.
  In both cases \<^verbatim>\<open>Init\<close> returns OK when the kernel can be made, and the error of
  \<^verbatim>\<open>Make\<close> otherwise.
\<close>

theorem Aggregate_Init_count_field:
  assumes "\<not> initialized s"
    and "resolve_columns (schema (p_visitor s)) (param_field_names (p_visitor s)) =
         Some (Status_OK, r)"
    and "result_fields (p_visitor s) @ map snd r = f0 # fs"
  shows "(visitor_class s = AggregateVisitorImpl ''sum_count'' \<longrightarrow>
           (\<exists>s'. Init E s =
                   Some (if ok (Make_status E (SumCountArrayKernel (type f0))) then Status_OK
                         else Make_status E (SumCountArrayKernel (type f0)), s') \<and>
                 result_fields (p_visitor s') =
                   result_fields (p_visitor s) @ map snd r @ [\<lparr>name = ''cnt'', type = int64\<rparr>] \<and>
                 length (result_fields (p_visitor s')) =
                   length (result_fields (p_visitor s)) + length r + 1)) \<and>
         (visitor_class s = AggregateVisitorImpl ''avgByCount'' \<longrightarrow>
           (\<exists>s'. Init E s =
                   Some (if ok (Make_status E (AvgByCountArrayKernel (type f0))) then Status_OK
                         else Make_status E (AvgByCountArrayKernel (type f0)), s') \<and>
                 result_fields (p_visitor s') = butlast (result_fields (p_visitor s) @ map snd r) \<and>
                 length (result_fields (p_visitor s')) + 1 =
                   length (result_fields (p_visitor s)) + length r \<and>
                 (r \<noteq> [] \<longrightarrow>
                    result_fields (p_visitor s') =
                      result_fields (p_visitor s) @ map snd (butlast r)) \<and>
                 (r \<noteq> [] \<and> snd (last r) \<notin> set (result_fields (p_visitor s)) \<and>
                  snd (last r) \<notin> set (map snd (butlast r)) \<longrightarrow>
                    snd (last r) \<notin> set (result_fields (p_visitor s')))))"
proof (intro conjI impI)
  assume c: "visitor_class s = AggregateVisitorImpl ''sum_count''"
  let ?s2 = "push_result_fields [\<lparr>name = ''cnt'', type = int64\<rparr>]
               (push_col_ids (map fst r) (push_result_fields (map snd r) s))"
  obtain s' where b:
    "bind_kernel E (SumCountArrayKernel (type f0)) ?s2 =
       Some (if ok (Make_status E (SumCountArrayKernel (type f0))) then Status_OK
             else Make_status E (SumCountArrayKernel (type f0)), s')"
    and p: "p_visitor s' = p_visitor ?s2"
    using bind_kernel_result by blast
  have init: "Init E s =
      Some (if ok (Make_status E (SumCountArrayKernel (type f0))) then Status_OK
            else Make_status E (SumCountArrayKernel (type f0)), s')"
    using c Aggregate_Init_sum_count [OF assms, of E] b by (simp add: Init_def)
  have rf: "result_fields (p_visitor s') =
      result_fields (p_visitor s) @ map snd r @ [\<lparr>name = ''cnt'', type = int64\<rparr>]"
    using p by (simp add: push_result_fields_def push_col_ids_def)
  then have len: "length (result_fields (p_visitor s')) =
      length (result_fields (p_visitor s)) + length r + 1"
    by simp
  from init rf len
  show "\<exists>s'. Init E s =
                   Some (if ok (Make_status E (SumCountArrayKernel (type f0))) then Status_OK
                         else Make_status E (SumCountArrayKernel (type f0)), s') \<and>
                 result_fields (p_visitor s') =
                   result_fields (p_visitor s) @ map snd r @ [\<lparr>name = ''cnt'', type = int64\<rparr>] \<and>
                 length (result_fields (p_visitor s')) =
                   length (result_fields (p_visitor s)) + length r + 1"
    by blast
next
  assume c: "visitor_class s = AggregateVisitorImpl ''avgByCount''"
  let ?all = "result_fields (p_visitor s) @ map snd r"
  let ?s2 = "(push_col_ids (map fst r) (push_result_fields (map snd r) s))
              \<lparr>p_visitor := (p_visitor s)\<lparr>result_fields := butlast ?all\<rparr>\<rparr>"
  obtain s' where b:
    "bind_kernel E (AvgByCountArrayKernel (type f0)) ?s2 =
       Some (if ok (Make_status E (AvgByCountArrayKernel (type f0))) then Status_OK
             else Make_status E (AvgByCountArrayKernel (type f0)), s')"
    and p: "p_visitor s' = p_visitor ?s2"
    using bind_kernel_result by blast
  have rf: "result_fields (p_visitor s') = butlast ?all"
    using p by simp
  have ne: "?all \<noteq> []"
    using assms(3) by simp
  have len: "length (butlast ?all) + 1 = length (result_fields (p_visitor s)) + length r"
    using ne by (metis One_nat_def Suc_pred add.commute length_append length_butlast
        length_greater_0_conv length_map plus_1_eq_Suc)
  have init: "Init E s =
      Some (if ok (Make_status E (AvgByCountArrayKernel (type f0))) then Status_OK
            else Make_status E (AvgByCountArrayKernel (type f0)), s')"
    using c Aggregate_Init_avgByCount [OF assms, of E] b by (simp add: Init_def)
  have len': "length (result_fields (p_visitor s')) + 1 =
      length (result_fields (p_visitor s)) + length r"
    using rf len by simp
  have last: "r \<noteq> [] \<longrightarrow>
      result_fields (p_visitor s') = result_fields (p_visitor s) @ map snd (butlast r)"
    using rf by (simp add: butlast_append map_butlast)
  have gone: "r \<noteq> [] \<and> snd (last r) \<notin> set (result_fields (p_visitor s)) \<and>
      snd (last r) \<notin> set (map snd (butlast r)) \<longrightarrow>
      snd (last r) \<notin> set (result_fields (p_visitor s'))"
    using last by auto
  from init rf len' last gone
  show "\<exists>s'. Init E s =
                   Some (if ok (Make_status E (AvgByCountArrayKernel (type f0))) then Status_OK
                         else Make_status E (AvgByCountArrayKernel (type f0)), s') \<and>
                 result_fields (p_visitor s') = butlast (result_fields (p_visitor s) @ map snd r) \<and>
                 length (result_fields (p_visitor s')) + 1 =
                   length (result_fields (p_visitor s)) + length r \<and>
                 (r \<noteq> [] \<longrightarrow>
                    result_fields (p_visitor s') =
                      result_fields (p_visitor s) @ map snd (butlast r)) \<and>
                 (r \<noteq> [] \<and> snd (last r) \<notin> set (result_fields (p_visitor s)) \<and>
                  snd (last r) \<notin> set (map snd (butlast r)) \<longrightarrow>
                    snd (last r) \<notin> set (result_fields (p_visitor s')))"
    by blast
qed

theorem Aggregate_Init_count_field_witness:
  "(\<exists>s'. Init ok_kernels (Make (AggregateVisitorImpl ''sum_count'') example_visitor None_kind 0) =
            Some (Status_OK, s') \<and>
          result_fields (p_visitor s') =
            [\<lparr>name = ''b'', type = int64\<rparr>, \<lparr>name = ''cnt'', type = int64\<rparr>]) \<and>
   (\<exists>s'. Init ok_kernels
            (Make (AggregateVisitorImpl ''avgByCount'')
               (example_visitor\<lparr>param_field_names := [''a'', ''b'']\<rparr>) None_kind 0) =
            Some (Status_OK, s') \<and>
          result_fields (p_visitor s') = [\<lparr>name = ''a'', type = int64\<rparr>] \<and>
          \<lparr>name = ''b'', type = int64\<rparr> \<notin> set (result_fields (p_visitor s')))"
proof -
  have r1: "resolve_columns (schema example_visitor) [''b''] =
      Some (Status_OK, [(1, \<lparr>name = ''b'', type = int64\<rparr>)])"
    by (simp add: example_defs)
  have r2: "resolve_columns (schema example_visitor) [''a'', ''b''] =
      Some (Status_OK, [(0, \<lparr>name = ''a'', type = int64\<rparr>), (1, \<lparr>name = ''b'', type = int64\<rparr>)])"
    by (simp add: example_defs)
  show ?thesis
    using Aggregate_Init_count_field [of
        "Make (AggregateVisitorImpl ''sum_count'') example_visitor None_kind 0"
        "[(1, \<lparr>name = ''b'', type = int64\<rparr>)]" "\<lparr>name = ''b'', type = int64\<rparr>" "[]" ok_kernels]
      Aggregate_Init_count_field [of
        "Make (AggregateVisitorImpl ''avgByCount'')
           (example_visitor\<lparr>param_field_names := [''a'', ''b'']\<rparr>) None_kind 0"
        "[(0, \<lparr>name = ''a'', type = int64\<rparr>), (1, \<lparr>name = ''b'', type = int64\<rparr>)]"
        "\<lparr>name = ''a'', type = int64\<rparr>" "[\<lparr>name = ''b'', type = int64\<rparr>]" ok_kernels]
      r1 r2
    by (simp add: example_defs, blast)
qed

text \<open>
  C5 as stated fails. On the output of a \<open>sum_count\<close> stage, the schema
  \<open>(s: int64, cnt: int64)\<close>, an \<open>avgByCount\<close> operator whose parameters name the count
  column first resolves them, removes the last field, which is that of \<open>s\<close>, and
  returns OK with the count field \<open>cnt\<close> as its only output field.
\<close>

theorem Aggregate_Init_count_field_counterexample:
  "Init ok_kernels (Make (AggregateVisitorImpl ''avgByCount'') count_first_visitor None_kind 0) =
     Some (Status_OK,
           (Make (AggregateVisitorImpl ''avgByCount'') count_first_visitor None_kind 0)
             \<lparr>p_visitor :=
                count_first_visitor\<lparr>result_fields := [\<lparr>name = ''cnt'', type = int64\<rparr>]\<rparr>,
              initialized := True,
              kernel := Some (new_kernel (AvgByCountArrayKernel int64)),
              col_id_list := [1, 0]\<rparr>)"
  by (simp add: method_defs example_defs)

subsection \<open>The probe-arrays operator has no eager result\<close>

text \<open>
  C6 (as amended). For the probe-arrays operator, \<^verbatim>\<open>Finish\<close> returns OK and changes
  nothing: it produces no batch and sets no return type. Its \<^verbatim>\<open>Eval\<close> never writes
  the context (no result array, result batch or return type), and when it succeeds the
  tag was \<open>None\<close> and \<^verbatim>\<open>finish_return_type_\<close> is \<open>Batch\<close>. \<^verbatim>\<open>MakeResultIterator\<close>
  returns \<^verbatim>\<open>NotImplemented\<close> unless \<^verbatim>\<open>finish_return_type_\<close> is \<open>Batch\<close>, and then
  returns what the kernel's \<^verbatim>\<open>MakeResultIterator\<close> returns, with the kernel's iterator.
\<close>

theorem ProbeArrays_no_eager_batch:
  assumes "visitor_class s = ProbeArraysVisitorImpl j"
  shows "Finish E s = Some (Status_OK, s) \<and>
         (\<forall>st s'. Eval E s = Some (st, s') \<longrightarrow> p_visitor s' = p_visitor s) \<and>
         (\<forall>st s'. Eval E s = Some (st, s') \<and> ok st \<longrightarrow>
            dependency_result_type (p_visitor s) = None_kind \<and>
            finish_return_type s' = Batch_kind) \<and>
         (finish_return_type s \<noteq> Batch_kind \<longrightarrow>
            MakeResultIterator E sch out s =
            Some (Status NotImplemented
                    ''ProbeArraysVisitorImpl MakeResultIterator: Does not support this type of input'',
                  s, out)) \<and>
         (\<forall>k. finish_return_type s = Batch_kind \<and> kernel s = Some k \<longrightarrow>
            MakeResultIterator E sch out s =
            Some (if ok (call_status E k (MakeResultIterator_call sch)) then Status_OK
                  else call_status E k (MakeResultIterator_call sch),
                  s\<lparr>kernel := Some (called k (MakeResultIterator_call sch))\<rparr>,
                  out_iterator E k (MakeResultIterator_call sch) out))"
  using assms
  by (auto simp: Finish_def ProbeArrays_Finish_def Eval_def ProbeArrays_Eval_def
      MakeResultIterator_def ProbeArrays_MakeResultIterator_def kernel_MakeResultIterator_def
      key_column_def kernel_Evaluate_def Let_def
      split: ArrowComputeResultType.splits option.splits sum.splits if_splits list.splits)

theorem ProbeArrays_no_eager_batch_witness:
  "Finish ok_kernels probe_arrays_example = Some (Status_OK, probe_arrays_example) \<and>
   Eval ok_kernels probe_arrays_example =
     Some (Status_OK,
           probe_arrays_example
             \<lparr>finish_return_type := Batch_kind,
              kernel := Some (called (new_kernel (ProbeArraysKernel int64 0))
                                (Evaluate_Array (Some [Some 2, Some 3])))\<rparr>) \<and>
   dependency_result_type (p_visitor probe_arrays_example) = None_kind \<and>
   MakeResultIterator ok_kernels [] None probe_arrays_example =
     Some (Status NotImplemented
             ''ProbeArraysVisitorImpl MakeResultIterator: Does not support this type of input'',
           probe_arrays_example, None) \<and>
   MakeResultIterator ok_kernels [] None (probe_arrays_example\<lparr>finish_return_type := Batch_kind\<rparr>) =
     Some (Status_OK,
           probe_arrays_example
             \<lparr>finish_return_type := Batch_kind,
              kernel := Some (called (new_kernel (ProbeArraysKernel int64 0))
                                (MakeResultIterator_call []))\<rparr>,
           Some (ResultIterator []))"
proof -
  have e: "Eval ok_kernels probe_arrays_example =
     Some (Status_OK,
           probe_arrays_example
             \<lparr>finish_return_type := Batch_kind,
              kernel := Some (called (new_kernel (ProbeArraysKernel int64 0))
                                (Evaluate_Array (Some [Some 2, Some 3])))\<rparr>)"
    by (simp add: method_defs example_defs probe_arrays_example_def)
  show ?thesis
    using e
      ProbeArrays_no_eager_batch [of probe_arrays_example 0 ok_kernels "[]" None]
      ProbeArrays_no_eager_batch [of "probe_arrays_example\<lparr>finish_return_type := Batch_kind\<rparr>" 0
        ok_kernels "[]" None]
    by (simp add: example_defs probe_arrays_example_def)
qed

text \<open>
  C6 as stated fails: \<^verbatim>\<open>Finish\<close> on an initialized probe-arrays operator returns OK, not
  \<^verbatim>\<open>NotImplemented\<close>.
\<close>

theorem ProbeArrays_no_eager_batch_counterexample:
  "Init ok_kernels (Make (ProbeArraysVisitorImpl 0) example_visitor2 None_kind 0) =
     Some (Status_OK, probe_arrays_example) \<and>
   Finish ok_kernels probe_arrays_example = Some (Status_OK, probe_arrays_example)"
  by (simp add: method_defs example_defs probe_arrays_example_def)

subsection \<open>The shuffle operator without an indices array\<close>

text \<open>
  C7 (as amended). For the shuffle-array-list operator with no indices array in the
  context (\<^verbatim>\<open>in_array_\<close> null), \<^verbatim>\<open>Finish\<close> returns \<^verbatim>\<open>Invalid\<close> and changes nothing;
  the kernel is not called. \<^verbatim>\<open>MakeResultIterator\<close> does not ask for the array: it binds
  it only when there is one. Without it, when \<^verbatim>\<open>finish_return_type_\<close> is not \<open>Batch\<close>
  it returns \<^verbatim>\<open>Invalid\<close> and changes nothing; when it is \<open>Batch\<close> (as an \<^verbatim>\<open>Eval\<close> with
  the tag \<open>None\<close> sets it) and the operator has its kernel, it makes one call of the
  kernel, \<^verbatim>\<open>MakeResultIterator(schema, out)\<close>, and returns what that call returns: OK,
  with the return type set to \<open>BatchIterator\<close>, when the kernel returns OK, and the
  kernel's error, with the return type as it was, otherwise; in both cases \<open>out\<close> is
  what the kernel wrote.
\<close>

theorem Shuffle_apply_without_indices:
  assumes "visitor_class s = ShuffleArrayListVisitorImpl"
    and "in_array (p_visitor s) = None"
  shows "Finish E s =
           Some (Status Invalid
                   ''ShuffleArrayListVisitorImpl depends on an indices array to indicate shuffle, while input_array is invalid.'',
                 s) \<and>
         (finish_return_type s \<noteq> Batch_kind \<longrightarrow>
            MakeResultIterator E sch out s =
            Some (Status Invalid
                    ''ShuffleArrayListVisitorImpl Finish does not support dependency type other than Batch and BatchList.'',
                  s, out)) \<and>
         (\<forall>k. finish_return_type s = Batch_kind \<and> kernel s = Some k \<longrightarrow>
            MakeResultIterator E sch out s =
            Some (if ok (call_status E k (MakeResultIterator_call sch))
                  then (Status_OK,
                        set_return_type BatchIterator_kind
                          (s\<lparr>kernel := Some (called k (MakeResultIterator_call sch))\<rparr>),
                        out_iterator E k (MakeResultIterator_call sch) out)
                  else (call_status E k (MakeResultIterator_call sch),
                        s\<lparr>kernel := Some (called k (MakeResultIterator_call sch))\<rparr>,
                        out_iterator E k (MakeResultIterator_call sch) out)))"
  using assms
  by (auto simp: Finish_def Shuffle_Finish_def Base_Finish_def MakeResultIterator_def
      Shuffle_MakeResultIterator_def kernel_MakeResultIterator_def
      split: ArrowComputeResultType.splits)

theorem Shuffle_apply_without_indices_witness:
  "in_array (p_visitor shuffle_evaluated) = None \<and>
   Finish ok_kernels shuffle_evaluated =
     Some (Status Invalid
             ''ShuffleArrayListVisitorImpl depends on an indices array to indicate shuffle, while input_array is invalid.'',
           shuffle_evaluated) \<and>
   MakeResultIterator ok_kernels [] None (shuffle_evaluated\<lparr>finish_return_type := Array_kind\<rparr>) =
     Some (Status Invalid
             ''ShuffleArrayListVisitorImpl Finish does not support dependency type other than Batch and BatchList.'',
           shuffle_evaluated\<lparr>finish_return_type := Array_kind\<rparr>, None) \<and>
   MakeResultIterator ok_kernels [] None shuffle_evaluated =
     Some (Status_OK,
           set_return_type BatchIterator_kind
             (shuffle_evaluated
                \<lparr>kernel := Some (called (called (new_kernel (ShuffleArrayListKernel [int64]))
                                           (Evaluate_ArrayList [[Some 2, Some 3]]))
                                   (MakeResultIterator_call []))\<rparr>),
           Some (ResultIterator [])) \<and>
   MakeResultIterator iterator_refusing_kernels [] None shuffle_evaluated =
     Some (Status IOError ''no iterator'',
           shuffle_evaluated
             \<lparr>kernel := Some (called (called (new_kernel (ShuffleArrayListKernel [int64]))
                                        (Evaluate_ArrayList [[Some 2, Some 3]]))
                                (MakeResultIterator_call []))\<rparr>,
           Some (ResultIterator []))"
  using Shuffle_apply_without_indices [of shuffle_evaluated ok_kernels "[]" None]
    Shuffle_apply_without_indices [of "shuffle_evaluated\<lparr>finish_return_type := Array_kind\<rparr>"
      ok_kernels "[]" None]
    Shuffle_apply_without_indices [of shuffle_evaluated iterator_refusing_kernels "[]" None]
  by (simp add: example_defs shuffle_evaluated_def ok_def Status_OK_def set_return_type_def)

text \<open>
  C7 as stated fails. After \<^verbatim>\<open>Init\<close> and one \<^verbatim>\<open>Eval\<close> with the tag \<open>None\<close>, which
  hands the columns to the kernel and puts no indices array into the context,
  \<^verbatim>\<open>MakeResultIterator\<close> with \<^verbatim>\<open>in_array_\<close> null does not return \<^verbatim>\<open>Invalid\<close>: it
  returns what the kernel's \<^verbatim>\<open>MakeResultIterator\<close> returns, OK and an iterator with
  kernels that accept the call, the kernel's own error with kernels that refuse it.
\<close>

theorem Shuffle_apply_without_indices_counterexample:
  "Init ok_kernels (Make ShuffleArrayListVisitorImpl example_visitor2 None_kind 0) =
     Some (Status_OK,
           initialized_on ShuffleArrayListVisitorImpl example_visitor2
             (ShuffleArrayListKernel [int64]) [1] 0) \<and>
   Eval ok_kernels
     (initialized_on ShuffleArrayListVisitorImpl example_visitor2
        (ShuffleArrayListKernel [int64]) [1] 0) = Some (Status_OK, shuffle_evaluated) \<and>
   in_array (p_visitor shuffle_evaluated) = None \<and>
   MakeResultIterator ok_kernels [] None shuffle_evaluated =
     Some (Status_OK,
           set_return_type BatchIterator_kind
             (shuffle_evaluated
                \<lparr>kernel := Some (called (called (new_kernel (ShuffleArrayListKernel [int64]))
                                           (Evaluate_ArrayList [[Some 2, Some 3]]))
                                   (MakeResultIterator_call []))\<rparr>),
           Some (ResultIterator [])) \<and>
   MakeResultIterator iterator_refusing_kernels [] None shuffle_evaluated =
     Some (Status IOError ''no iterator'',
           shuffle_evaluated
             \<lparr>kernel := Some (called (called (new_kernel (ShuffleArrayListKernel [int64]))
                                        (Evaluate_ArrayList [[Some 2, Some 3]]))
                                (MakeResultIterator_call []))\<rparr>,
           Some (ResultIterator []))"
  by (simp add: method_defs example_defs shuffle_evaluated_def ok_def Status_OK_def)

subsection \<open>Unrecognized names\<close>

text \<open>\<^verbatim>\<open>CreateCodeGenerator\<close> returns \<^verbatim>\<open>TypeError\<close> and a null generator for a codegen
  type that is none of the three constants.\<close>

lemma CreateCodeGenerator_unrecognized:
  assumes "create exprs = (st, t)"
    and "t \<noteq> ARROW_COMPUTE T" and "t \<noteq> GANDIVA T" and "t \<noteq> COMPUTE_EXT T"
  shows "CreateCodeGenerator T create sch exprs rets fin =
         (Status TypeError ''Unrecognized expression type.'', None)"
  using assms by (simp add: CreateCodeGenerator_def)

lemma resolve_columns_status:
  "resolve_columns sch ns = Some (st, r) \<Longrightarrow> st = Status_OK \<or> code st = Invalid"
  by (induction ns arbitrary: r)
     (auto simp: GetColumnIdAndFieldByName_def Let_def split: if_splits option.splits)

text \<open>
  The chain of comparisons in \<^verbatim>\<open>AggregateVisitorImpl::Init\<close> has no final
  \<^verbatim>\<open>else\<close>: with a function name outside the eight it never makes a kernel and
  never returns \<^verbatim>\<open>TypeError\<close>.
\<close>

lemma Aggregate_Init_no_kernel:
  assumes "f \<notin> {''sum'', ''append'', ''count'', ''unique'', ''sum_count'', ''avgByCount'', ''min'', ''max''}"
    and "Init E (Make (AggregateVisitorImpl f) ctx frt cid) = Some (st, s')"
  shows "kernel s' = None \<and> code st \<noteq> TypeError"
  using assms
  by (auto simp: Init_def Aggregate_Init_def Make_def Let_def push_col_ids_def
      push_result_fields_def Status_OK_def
      split: option.splits prod.splits list.splits if_splits dest: resolve_columns_status)

text \<open>
  C8 does not hold of the code. \<^verbatim>\<open>Init\<close> of an aggregate operator made with the
  function name \<open>median\<close> returns OK and sets \<^verbatim>\<open>initialized_\<close>, with no kernel bound
  (\<^verbatim>\<open>kernel_\<close> is still null), where C8 asks for \<^verbatim>\<open>TypeError\<close>.
\<close>

theorem Aggregate_Init_unknown_function:
  "Init ok_kernels (Make (AggregateVisitorImpl ''median'') example_visitor None_kind 0) =
     Some (Status_OK,
           (initialized_on (AggregateVisitorImpl ''median'') example_visitor AppendArrayKernel [1] 0)
             \<lparr>kernel := None\<rparr>)"
  by (simp add: method_defs example_defs)

subsection \<open>SetDependency of the shuffle operator\<close>

text \<open>
  C9. For the shuffle-array-list operator with its kernel, when the kernel accepts
  \<^verbatim>\<open>SetDependencyIter(dependency_iter, index)\<close>, \<^verbatim>\<open>SetDependency\<close> returns OK, the
  kernel has received the iterator for that position, and the context's
  \<^verbatim>\<open>dependency_result_type_\<close> is \<open>BatchIterator\<close>, nothing else being changed. The next
  \<^verbatim>\<open>Eval\<close> (the resolved indices being columns of the input batch) then takes the
  \<open>BatchIterator\<close> case: it calls the kernel's \<^verbatim>\<open>Evaluate(col_list, &result_batch_)\<close>
  and, when that returns OK, sets the return type to \<open>Batch\<close> and leaves
  \<^verbatim>\<open>finish_return_type_\<close> alone.
\<close>

theorem Shuffle_SetDependency_apply:
  assumes "visitor_class s = ShuffleArrayListVisitorImpl"
    and "kernel s = Some k"
    and "ok (call_status E k (SetDependencyIter_call dependency_iter index))"
  shows "\<exists>s'. SetDependency E dependency_iter index s = Some (Status_OK, s') \<and>
           s' = s\<lparr>kernel := Some (called k (SetDependencyIter_call dependency_iter index)),
                  p_visitor := (p_visitor s)\<lparr>dependency_result_type := BatchIterator_kind\<rparr>\<rparr> \<and>
           (columns_in_range s \<longrightarrow>
              (\<exists>cols st s''.
                 Eval E s' = Some (st, s'') \<and>
                 kernel s'' =
                   Some (called (called k (SetDependencyIter_call dependency_iter index))
                           (Evaluate_ArrayList_out_Batch cols)) \<and>
                 (ok st \<longrightarrow> st = Status_OK \<and> return_type (p_visitor s'') = Batch_kind \<and>
                    finish_return_type s'' = finish_return_type s)))"
proof -
  let ?s' = "s\<lparr>kernel := Some (called k (SetDependencyIter_call dependency_iter index)),
               p_visitor := (p_visitor s)\<lparr>dependency_result_type := BatchIterator_kind\<rparr>\<rparr>"
  have set: "SetDependency E dependency_iter index s = Some (Status_OK, ?s')"
    using assms by (simp add: SetDependency_def Shuffle_SetDependency_def Let_def)
  have apply_path: "\<exists>cols st s''. Eval E ?s' = Some (st, s'') \<and>
           kernel s'' =
             Some (called (called k (SetDependencyIter_call dependency_iter index))
                     (Evaluate_ArrayList_out_Batch cols)) \<and>
           (ok st \<longrightarrow> st = Status_OK \<and> return_type (p_visitor s'') = Batch_kind \<and>
              finish_return_type s'' = finish_return_type s)"
    if "columns_in_range s"
  proof -
    from that have "columns_in_range ?s'"
      by (simp add: columns_in_range_def)
    then obtain cols where cols:
      "checked_columns
         ''ShuffleArrayListVisitorImpl Eval col_id is bigger than input batch numColumns.''
         (in_record_batch (p_visitor ?s')) (col_id_list ?s') = Some (Inr cols)"
      using checked_columns_in_range by blast
    have "\<exists>st s''. Eval E ?s' = Some (st, s'') \<and>
           kernel s'' =
             Some (called (called k (SetDependencyIter_call dependency_iter index))
                     (Evaluate_ArrayList_out_Batch cols)) \<and>
           (ok st \<longrightarrow> st = Status_OK \<and> return_type (p_visitor s'') = Batch_kind \<and>
              finish_return_type s'' = finish_return_type s)"
      using assms(1) cols
      by (simp add: Eval_def Shuffle_Eval_def Let_def set_return_type_def)
    then show ?thesis by blast
  qed
  from set apply_path show ?thesis by blast
qed

theorem Shuffle_SetDependency_apply_witness:
  "\<exists>s' s''. SetDependency ok_kernels (Some (ResultIterator [])) 0 shuffle_evaluated = Some (Status_OK, s') \<and>
      dependency_result_type (p_visitor s') = BatchIterator_kind \<and>
      Eval ok_kernels s' = Some (Status_OK, s'') \<and>
      return_type (p_visitor s'') = Batch_kind"
proof -
  have k: "kernel shuffle_evaluated =
      Some (called (new_kernel (ShuffleArrayListKernel [int64]))
              (Evaluate_ArrayList [[Some 2, Some 3]]))"
    by (simp add: shuffle_evaluated_def)
  have c: "visitor_class shuffle_evaluated = ShuffleArrayListVisitorImpl"
    by (simp add: shuffle_evaluated_def initialized_on_def)
  have o: "ok (call_status ok_kernels
                 (called (new_kernel (ShuffleArrayListKernel [int64]))
                    (Evaluate_ArrayList [[Some 2, Some 3]]))
                 (SetDependencyIter_call (Some (ResultIterator [])) 0))"
    by (simp add: ok_kernels_def)
  have r: "columns_in_range shuffle_evaluated"
    by (simp add: shuffle_evaluated_def example_defs)
  from Shuffle_SetDependency_apply [OF c k o] r obtain s' cols st s'' where
    a: "SetDependency ok_kernels (Some (ResultIterator [])) 0 shuffle_evaluated = Some (Status_OK, s')"
    and b: "s' = shuffle_evaluated
        \<lparr>kernel := Some (called (called (new_kernel (ShuffleArrayListKernel [int64]))
                                   (Evaluate_ArrayList [[Some 2, Some 3]]))
                           (SetDependencyIter_call (Some (ResultIterator [])) 0)),
         p_visitor := (p_visitor shuffle_evaluated)\<lparr>dependency_result_type := BatchIterator_kind\<rparr>\<rparr>"
    and e: "Eval ok_kernels s' = Some (st, s'')"
    and f: "ok st \<longrightarrow> st = Status_OK \<and> return_type (p_visitor s'') = Batch_kind \<and>
              finish_return_type s'' = finish_return_type shuffle_evaluated"
    by blast
  have "Eval ok_kernels s' \<noteq> None \<and> ok (fst (the (Eval ok_kernels s')))"
    unfolding b by (simp add: method_defs example_defs shuffle_evaluated_def)
  with e have "ok st" by simp
  with a b e f show ?thesis by auto
qed

subsection \<open>Which Eval rewrites the dependency tag\<close>

lemma kernel_Evaluate_context:
  "kernel_Evaluate E c s = Some (st, s') \<Longrightarrow> p_visitor s' = p_visitor s"
  by (auto simp: kernel_Evaluate_def split: option.splits)

lemma key_column_context:
  "key_column E s = Some (x, s') \<Longrightarrow> p_visitor s' = p_visitor s"
  by (auto simp: key_column_def Let_def split: option.splits list.splits if_splits)

lemma checked_columns_error:
  "checked_columns msg b ids = Some (Inl e) \<Longrightarrow> e = Status Invalid msg"
  by (induction ids) (auto split: option.splits if_splits sum.splits)

text \<open>
  C10. When \<^verbatim>\<open>Eval\<close> of the split-by-action operator returns OK, it was entered with
  the tag \<open>Array\<close>, \<^verbatim>\<open>finish_return_type_\<close> is \<open>Batch\<close> and the context's
  \<^verbatim>\<open>dependency_result_type_\<close> is \<open>None\<close>. \<^verbatim>\<open>Eval\<close> of every other class, whatever
  it returns, leaves \<^verbatim>\<open>dependency_result_type_\<close> as it was.
\<close>

theorem Eval_dependency_tag:
  "(visitor_class s = SplitArrayListWithActionVisitorImpl \<and> Eval E s = Some (st, s') \<and> ok st \<longrightarrow>
      dependency_result_type (p_visitor s) = Array_kind \<and>
      finish_return_type s' = Batch_kind \<and>
      dependency_result_type (p_visitor s') = None_kind) \<and>
   (visitor_class s \<noteq> SplitArrayListWithActionVisitorImpl \<and> Eval E s = Some (st, s') \<longrightarrow>
      dependency_result_type (p_visitor s') = dependency_result_type (p_visitor s))"
proof (cases "visitor_class s")
  case SplitArrayListWithActionVisitorImpl
  then show ?thesis
    by (auto simp: Eval_def Split_Eval_def
        split: ArrowComputeResultType.splits option.splits sum.splits if_splits
        dest: checked_columns_error)
next
  case (AggregateVisitorImpl f)
  then show ?thesis
    by (auto simp: Eval_def Aggregate_Eval_def
        split: ArrowComputeResultType.splits option.splits sum.splits if_splits
        dest: kernel_Evaluate_context)
next
  case EncodeVisitorImpl
  then show ?thesis
    by (auto simp: Eval_def Encode_Eval_def Let_def set_return_type_def
        split: ArrowComputeResultType.splits option.splits sum.splits if_splits
        dest: key_column_context)
next
  case ProbeVisitorImpl
  then show ?thesis
    by (auto simp: Eval_def Probe_Eval_def
        split: ArrowComputeResultType.splits option.splits if_splits
        dest: kernel_Evaluate_context)
next
  case TakeVisitorImpl
  then show ?thesis
    by (auto simp: Eval_def Take_Eval_def Probe_Eval_def
        split: ArrowComputeResultType.splits option.splits if_splits
        dest: kernel_Evaluate_context)
next
  case NTakeVisitorImpl
  then show ?thesis
    by (auto simp: Eval_def NTake_Eval_def Probe_Eval_def
        split: ArrowComputeResultType.splits option.splits if_splits
        dest: kernel_Evaluate_context)
next
  case (SortArraysToIndicesVisitorImpl nf asc)
  then show ?thesis
    by (auto simp: Eval_def Sort_Eval_def
        split: ArrowComputeResultType.splits option.splits if_splits
        dest: kernel_Evaluate_context)
next
  case ShuffleArrayListVisitorImpl
  then show ?thesis
    by (auto simp: Eval_def Shuffle_Eval_def Let_def set_return_type_def
        split: ArrowComputeResultType.splits option.splits sum.splits if_splits
        dest: kernel_Evaluate_context)
next
  case (ProbeArraysVisitorImpl j)
  then show ?thesis
    by (auto simp: Eval_def ProbeArrays_Eval_def
        split: ArrowComputeResultType.splits option.splits sum.splits if_splits
        dest!: kernel_Evaluate_context key_column_context)
qed

theorem Eval_dependency_tag_witness:
  "\<exists>s'. Eval ok_kernels split_example = Some (Status_OK, s') \<and>
      dependency_result_type (p_visitor split_example) = Array_kind \<and>
      finish_return_type s' = Batch_kind \<and>
      dependency_result_type (p_visitor s') = None_kind"
proof -
  have "Eval ok_kernels split_example \<noteq> None \<and> fst (the (Eval ok_kernels split_example)) = Status_OK"
    by (simp add: method_defs example_defs split_example_def)
  then obtain s' where e: "Eval ok_kernels split_example = Some (Status_OK, s')"
    by (cases "Eval ok_kernels split_example") auto
  have c: "visitor_class split_example = SplitArrayListWithActionVisitorImpl"
    by (simp add: split_example_def initialized_on_def)
  from Eval_dependency_tag [of split_example ok_kernels Status_OK s'] c e show ?thesis
    by simp
qed

end
